theory Spec2Isabelle
  imports Complex_Main
begin

section \<open>Python values\<close>

text \<open>
  The exchange client of \<^verbatim>\<open>src/main.py\<close> works on what
  \<^verbatim>\<open>response.json()\<close> returns and on the parameter dictionaries it builds itself.
  Both are Python values: \<^verbatim>\<open>None\<close>, booleans, integers, floats, strings, lists and
  dictionaries with string keys. A dictionary is the list of its items in insertion
  order (its keys are distinct, as in Python). The absence that
  \<^verbatim>\<open>_make_request\<close> returns for a failed call is \<^verbatim>\<open>None\<close>, the same value a
  JSON \<^verbatim>\<open>null\<close> body decodes to.

  A string is the list of its code points, each below 256. A float is a finite
  binary64 value, held as the rational it denotes (a negative zero is the rational 0);
  \<open>float_of\<close> below rounds to binary64 whatever it reads. The infinities and NaN are
  not values of this development.
\<close>

datatype pyval =
    PNone
  | PBool bool
  | PInt int
  | PFloat rat
  | PStr string
  | PList "pyval list"
  | PDict "(string \<times> pyval) list"

text \<open>The exceptions the client can meet while it reads such values.\<close>

datatype pyerr = KeyError | TypeError | AttributeError | ValueError | OverflowError

text \<open>Truth value of a Python value, as \<^verbatim>\<open>if positions:\<close> tests it.\<close>

fun py_truthy :: "pyval \<Rightarrow> bool" where
  "py_truthy PNone = False"
| "py_truthy (PBool b) = b"
| "py_truthy (PInt i) = (i \<noteq> 0)"
| "py_truthy (PFloat r) = (r \<noteq> 0)"
| "py_truthy (PStr s) = (s \<noteq> [])"
| "py_truthy (PList xs) = (xs \<noteq> [])"
| "py_truthy (PDict kvs) = (kvs \<noteq> [])"

text \<open>
  \<^verbatim>\<open>obj[key]\<close> with a string key: a dictionary answers or raises KeyError; every
  other value raises TypeError (not subscriptable, or indices must be integers).
\<close>

fun py_getitem :: "pyval \<Rightarrow> string \<Rightarrow> pyerr + pyval" where
  "py_getitem (PDict kvs) key =
     (case map_of kvs key of None \<Rightarrow> Inl KeyError | Some v \<Rightarrow> Inr v)"
| "py_getitem v key = Inl TypeError"

text \<open>
  \<^verbatim>\<open>obj.get(key, default)\<close>: only a dictionary has the method; on every other
  value, \<^verbatim>\<open>None\<close> included, the attribute lookup raises AttributeError.
\<close>

fun py_get :: "pyval \<Rightarrow> string \<Rightarrow> pyval \<Rightarrow> pyerr + pyval" where
  "py_get (PDict kvs) key dflt =
     (case map_of kvs key of None \<Rightarrow> Inr dflt | Some v \<Rightarrow> Inr v)"
| "py_get v key dflt = Inl AttributeError"

text \<open>
  \<^verbatim>\<open>for x in obj\<close>: a list yields its elements, a dictionary its keys, a string
  its characters; nothing else is iterable.
\<close>

fun py_iter :: "pyval \<Rightarrow> pyerr + pyval list" where
  "py_iter (PList xs) = Inr xs"
| "py_iter (PDict kvs) = Inr (map (\<lambda>kv. PStr (fst kv)) kvs)"
| "py_iter (PStr s) = Inr (map (\<lambda>c. PStr [c]) s)"
| "py_iter v = Inl TypeError"

text \<open>
  \<^verbatim>\<open>d[key] = value\<close> on a dictionary: an existing key keeps its place and gets the
  new value, a new key goes to the end.
\<close>

fun dict_set :: "(string \<times> pyval) list \<Rightarrow> string \<Rightarrow> pyval \<Rightarrow> (string \<times> pyval) list" where
  "dict_set [] key v = [(key, v)]"
| "dict_set (kv # kvs) key v =
     (if fst kv = key then (key, v) # kvs else kv # dict_set kvs key v)"

subsection \<open>Converting to float\<close>

text \<open>
  Rounding a rational to the nearest binary64 value, ties to the even significand, as
  Python's correctly rounded conversions do. A value of magnitude at least \<open>2 ^ e\<close>
  and below \<open>2 ^ (e + 1)\<close> is rounded to a multiple of \<open>2 ^ (e - 52)\<close>, and to a
  multiple of \<open>2 ^ (- 1074)\<close> when \<open>e\<close> is below -1022 (subnormal values and zero).
  The result is \<open>None\<close> when the rounded magnitude reaches \<open>2 ^ 1024\<close>: the value
  overflows. \<open>bitlen n\<close> is the number of binary digits of \<open>n\<close> and \<open>ilog2 a\<close> the
  exponent \<open>e\<close> of a positive \<open>a\<close>.
\<close>

function bitlen :: "nat \<Rightarrow> nat" where
  "bitlen n = (if n = 0 then 0 else Suc (bitlen (n div 2)))"
  by pat_completeness auto
termination
  by (relation "measure (\<lambda>n. n)") auto

declare bitlen.simps [simp del]

definition pow2 :: "int \<Rightarrow> rat" where
  "pow2 e = (if 0 \<le> e then 2 ^ nat e else 1 / 2 ^ nat (- e))"

definition ilog2 :: "rat \<Rightarrow> int" where
  "ilog2 a =
     (if 1 \<le> a then int (bitlen (nat \<lfloor>a\<rfloor>)) - 1
      else - int (bitlen (nat (\<lceil>1 / a\<rceil> - 1))))"

definition round_half_even :: "rat \<Rightarrow> int" where
  "round_half_even x =
     (if x - of_int \<lfloor>x\<rfloor> < 1 / 2 then \<lfloor>x\<rfloor>
      else if 1 / 2 < x - of_int \<lfloor>x\<rfloor> then \<lfloor>x\<rfloor> + 1
      else if even \<lfloor>x\<rfloor> then \<lfloor>x\<rfloor>
      else \<lfloor>x\<rfloor> + 1)"

definition round_binary64 :: "rat \<Rightarrow> rat option" where
  "round_binary64 q =
     (if q = 0 then Some 0
      else
        (let p = max (ilog2 \<bar>q\<bar> - 52) (- 1074);
             v = of_int (round_half_even (\<bar>q\<bar> / pow2 p)) * pow2 p
         in if 2 ^ 1024 \<le> v then None else Some (if q < 0 then - v else v)))"

text \<open>
  \<^verbatim>\<open>float(x)\<close> on a string strips surrounding white space and then reads an
  optional sign, decimal digits with an optional fraction (underscores may separate
  digits) and an optional exponent; malformed text raises ValueError. The white space
  it strips is the C locale's (tab to carriage return, and the space) and, past ASCII,
  Unicode's (U+0085 and U+00A0 among the code points of a string here); the separators
  U+001C to U+001F are not stripped. \<open>parse_decimal\<close> gives the exact value of the
  text; \<open>float_of\<close> rounds it.

  Python also accepts the spellings \<^verbatim>\<open>inf\<close>, \<^verbatim>\<open>infinity\<close> and \<^verbatim>\<open>nan\<close>, and reads
  a decimal that overflows as an infinity. These readings are not floats of this
  development: such text is rejected here like malformed text, so every statement below
  that assumes a float was read is about a finite one.
\<close>

definition is_space :: "char \<Rightarrow> bool" where
  "is_space c = (c \<in> set [CHR 0x09, CHR 0x0A, CHR 0x0B, CHR 0x0C, CHR 0x0D, CHR 0x20,
                            CHR 0x85, CHR 0xA0])"

definition strip :: "string \<Rightarrow> string" where
  "strip s = rev (dropWhile is_space (rev (dropWhile is_space s)))"

definition digit_val :: "char \<Rightarrow> nat option" where
  "digit_val c = map_of (zip ''0123456789'' [0, 1, 2, 3, 4, 5, 6, 7, 8, 9]) c"

definition is_digit :: "char \<Rightarrow> bool" where
  "is_digit c = (digit_val c \<noteq> None)"

definition digit_of :: "char \<Rightarrow> nat" where
  "digit_of c = (case digit_val c of None \<Rightarrow> 0 | Some d \<Rightarrow> d)"

text \<open>
  The digits at the front of a text and what follows them. After a digit, an underscore
  is passed over when another digit follows it.
\<close>

fun more_digits :: "string \<Rightarrow> nat list \<times> string" where
  "more_digits [] = ([], [])"
| "more_digits (c # cs) =
     (if is_digit c then (case more_digits cs of (ds, rest) \<Rightarrow> (digit_of c # ds, rest))
      else if c = CHR ''_'' \<and> (case cs of [] \<Rightarrow> False | c' # cs' \<Rightarrow> is_digit c')
      then more_digits cs
      else ([], c # cs))"

definition digitpart :: "string \<Rightarrow> nat list \<times> string" where
  "digitpart s =
     (case s of
        [] \<Rightarrow> ([], [])
      | c # cs \<Rightarrow>
          if is_digit c then (case more_digits cs of (ds, rest) \<Rightarrow> (digit_of c # ds, rest))
          else ([], s))"

definition digits_value :: "nat list \<Rightarrow> nat" where
  "digits_value ds = foldl (\<lambda>a d. 10 * a + d) 0 ds"

definition take_sign :: "string \<Rightarrow> bool \<times> string" where
  "take_sign s =
     (case s of
        [] \<Rightarrow> (False, [])
      | c # cs \<Rightarrow>
          if c = CHR ''-'' then (True, cs)
          else if c = CHR ''+'' then (False, cs)
          else (False, s))"

definition parse_exponent :: "string \<Rightarrow> int option" where
  "parse_exponent s =
     (case s of
        [] \<Rightarrow> Some 0
      | c # cs \<Rightarrow>
          if c = CHR ''e'' \<or> c = CHR ''E'' then
            (case take_sign cs of
               (neg, ds) \<Rightarrow>
                 (case digitpart ds of
                    (es, rest) \<Rightarrow>
                      if es = [] then None
                      else if rest = [] then
                        Some (if neg then - int (digits_value es) else int (digits_value es))
                      else None))
          else None)"

definition scale10 :: "rat \<Rightarrow> int \<Rightarrow> rat" where
  "scale10 m e = (if 0 \<le> e then m * 10 ^ nat e else m / 10 ^ nat (- e))"

definition parse_decimal :: "string \<Rightarrow> rat option" where
  "parse_decimal s =
     (case take_sign (strip s) of
        (neg, s1) \<Rightarrow>
          (case digitpart s1 of
             (ip, s2) \<Rightarrow>
               (case (case s2 of
                        [] \<Rightarrow> ([], [])
                      | c # cs \<Rightarrow> if c = CHR ''.'' then digitpart cs else ([], s2)) of
                  (fp, s3) \<Rightarrow>
                    if ip = [] \<and> fp = [] then None
                    else
                      (case parse_exponent s3 of
                         None \<Rightarrow> None
                       | Some e \<Rightarrow>
                           Some ((if neg then - 1 else 1) *
                                 scale10 (of_nat (digits_value (ip @ fp)) / 10 ^ length fp) e)))))"

definition float_of :: "string \<Rightarrow> rat option" where
  "float_of s = (case parse_decimal s of None \<Rightarrow> None | Some q \<Rightarrow> round_binary64 q)"

text \<open>
  \<^verbatim>\<open>float(x)\<close> on a value: a float is returned as it is, an integer is rounded and
  raises OverflowError when it is too large, a boolean counts as 0 or 1, and
  \<^verbatim>\<open>None\<close>, lists and dictionaries raise TypeError.
\<close>

fun py_float :: "pyval \<Rightarrow> pyerr + rat" where
  "py_float (PFloat r) = Inr r"
| "py_float (PInt i) =
     (case round_binary64 (of_int i) of None \<Rightarrow> Inl OverflowError | Some v \<Rightarrow> Inr v)"
| "py_float (PBool b) = Inr (if b then 1 else 0)"
| "py_float (PStr s) = (case float_of s of None \<Rightarrow> Inl ValueError | Some r \<Rightarrow> Inr r)"
| "py_float v = Inl TypeError"

subsection \<open>Formatting\<close>

text \<open>
  \<^verbatim>\<open>str.upper()\<close> and the decimal text of an integer. The method names and
  endpoints of the client are ASCII, so is the model of \<^verbatim>\<open>upper\<close>.
\<close>

definition upper_char :: "char \<Rightarrow> char" where
  "upper_char c =
     (case map_of (zip ''abcdefghijklmnopqrstuvwxyz'' ''ABCDEFGHIJKLMNOPQRSTUVWXYZ'') c of
        None \<Rightarrow> c
      | Some u \<Rightarrow> u)"

definition str_upper :: "string \<Rightarrow> string" where
  "str_upper s = map upper_char s"

function str_nat :: "nat \<Rightarrow> string" where
  "str_nat n =
     (if n < 10 then [''0123456789'' ! n]
      else str_nat (n div 10) @ [''0123456789'' ! (n mod 10)])"
  by pat_completeness auto
termination
  by (relation "measure (\<lambda>n. n)") auto

declare str_nat.simps [simp del]

definition str_int :: "int \<Rightarrow> string" where
  "str_int i = (if i < 0 then CHR ''-'' # str_nat (nat (- i)) else str_nat (nat i))"

text \<open>\<^verbatim>\<open>sep.join(parts)\<close>.\<close>

fun py_join :: "string \<Rightarrow> string list \<Rightarrow> string" where
  "py_join sep [] = []"
| "py_join sep [x] = x"
| "py_join sep (x # y # zs) = x @ sep @ py_join sep (y # zs)"

section \<open>The platform and the exchange\<close>

text \<open>
  A request as handed to \<^verbatim>\<open>requests.get\<close> or \<^verbatim>\<open>requests.post\<close>: the method,
  the URL, the headers and the \<^verbatim>\<open>params\<close> dictionary (or \<^verbatim>\<open>None\<close>).
\<close>

record request =
  req_method :: string
  req_url :: string
  req_headers :: "(string \<times> string) list"
  req_params :: "(string \<times> pyval) list option"

text \<open>
  What the client takes from outside itself, as parameters:
  \<^item> \<open>hmac_sha256_hex key msg\<close>: the hex digest of HMAC-SHA256 over the UTF-8
    encodings of \<open>key\<close> and \<open>msg\<close>, that is
    \<^verbatim>\<open>hmac.new(key.encode('utf-8'), msg.encode('utf-8'), hashlib.sha256).hexdigest()\<close>;
  \<^item> \<open>py_repr\<close>: the text Python prints for a float or a container;
  \<^item> \<open>transport history r\<close>: the outcome of request \<open>r\<close> after the requests of
    \<open>history\<close>: \<open>Some j\<close> when \<^verbatim>\<open>raise_for_status\<close> did not raise and the body
    decoded to \<open>j\<close>, \<open>None\<close> when the call ended in a \<^verbatim>\<open>RequestException\<close>
    (a transport failure, a 4xx or 5xx status, a body that is not JSON);
  \<^item> \<open>time_ms n\<close>: \<^verbatim>\<open>int(time.time() * 1000)\<close> at the \<open>n\<close>-th reading of the clock;
  \<^item> \<open>keyring_get_password\<close> and \<open>environ\<close>: the secret store and the process
    environment.
\<close>

record platform =
  hmac_sha256_hex :: "string \<Rightarrow> string \<Rightarrow> string"
  py_repr :: "pyval \<Rightarrow> string"
  transport :: "request list \<Rightarrow> request \<Rightarrow> pyval option"
  time_ms :: "nat \<Rightarrow> int"
  keyring_get_password :: "string \<Rightarrow> string \<Rightarrow> string option"
  environ :: "string \<Rightarrow> string option"

text \<open>
  The effects of a run: the requests dispatched so far, oldest first, and the number
  of clock readings. Log lines and the 60 second sleep change neither and are left out.
\<close>

record world =
  sent :: "request list"
  ticks :: nat

definition tick :: "world \<Rightarrow> world" where
  "tick w = w\<lparr>ticks := Suc (ticks w)\<rparr>"

text \<open>An f-string field \<^verbatim>\<open>{value}\<close>.\<close>

fun py_format :: "platform \<Rightarrow> pyval \<Rightarrow> string" where
  "py_format pf (PStr s) = s"
| "py_format pf (PInt i) = str_int i"
| "py_format pf PNone = ''None''"
| "py_format pf (PBool b) = (if b then ''True'' else ''False'')"
| "py_format pf v = py_repr pf v"

section \<open>BinanceBot\<close>

record bot =
  api_key :: string
  api_secret :: string
  base_url :: string

text \<open>\<^verbatim>\<open>a or b\<close> on optional strings: \<^verbatim>\<open>None\<close> and the empty string are false.\<close>

fun str_or :: "string option \<Rightarrow> string option \<Rightarrow> string option" where
  "str_or None b = b"
| "str_or (Some s) b = (if s = [] then b else Some s)"

text \<open>
  \<^verbatim>\<open>BinanceBot.__init__\<close>: credentials from the arguments or the secret store, the
  base URL from the argument or the environment; ValueError when a credential is
  missing or empty.
\<close>

definition new_bot ::
  "platform \<Rightarrow> string option \<Rightarrow> string option \<Rightarrow> string option \<Rightarrow> pyerr + bot" where
  "new_bot pf key secret url =
     (case str_or key (keyring_get_password pf ''BINANCE_API_KEY'' ''BINANCE_API_KEY'') of
        None \<Rightarrow> Inl ValueError
      | Some k \<Rightarrow>
          (case str_or secret
                  (keyring_get_password pf ''BINANCE_API_SECRET'' ''BINANCE_API_SECRET'') of
             None \<Rightarrow> Inl ValueError
           | Some s \<Rightarrow>
               if k = [] then Inl ValueError
               else if s = [] then Inl ValueError
               else
                 Inr \<lparr>api_key = k, api_secret = s,
                      base_url =
                        (case str_or url
                                (Some (case environ pf ''BINANCE_BASE_URL'' of
                                         None \<Rightarrow> ''https://fapi.binance.com''
                                       | Some u \<Rightarrow> u)) of
                           None \<Rightarrow> []
                         | Some u \<Rightarrow> u)\<rparr>))"

text \<open>\<^verbatim>\<open>_generate_signature\<close>, lines 35 to 45.\<close>

definition query_string :: "platform \<Rightarrow> (string \<times> pyval) list \<Rightarrow> string" where
  "query_string pf params =
     py_join ''&'' (map (\<lambda>kv. fst kv @ ''='' @ py_format pf (snd kv)) params)"

definition generate_signature :: "platform \<Rightarrow> bot \<Rightarrow> (string \<times> pyval) list \<Rightarrow> string" where
  "generate_signature pf b params =
     hmac_sha256_hex pf (api_secret b) (query_string pf params)"

text \<open>
  \<^verbatim>\<open>_make_request\<close>, lines 47 to 67. A \<^verbatim>\<open>RequestException\<close> is caught and
  becomes \<^verbatim>\<open>None\<close>; the ValueError of an unsupported method is not a
  \<^verbatim>\<open>RequestException\<close> and leaves the function.
\<close>

definition make_request ::
  "platform \<Rightarrow> bot \<Rightarrow> string \<Rightarrow> string \<Rightarrow> (string \<times> pyval) list option \<Rightarrow>
   (string \<times> string) list option \<Rightarrow> world \<Rightarrow> (pyerr + pyval) \<times> world" where
  "make_request pf b method endpoint params headers w =
     (let url = base_url b @ endpoint;
          hs = (case headers of None \<Rightarrow> [(''X-MBX-APIKEY'', api_key b)] | Some h \<Rightarrow> h);
          r = \<lparr>req_method = str_upper method, req_url = url, req_headers = hs,
               req_params = params\<rparr>
      in if str_upper method = ''GET'' \<or> str_upper method = ''POST''
         then (Inr (case transport pf (sent w) r of None \<Rightarrow> PNone | Some j \<Rightarrow> j),
               w\<lparr>sent := sent w @ [r]\<rparr>)
         else (Inl ValueError, w))"

text \<open>
  \<^verbatim>\<open>get_positions\<close>, lines 69 to 79. The list comprehension of line 78 raises at
  the first element it cannot read.
\<close>

fun nonzero_positions :: "pyval list \<Rightarrow> pyerr + pyval list" where
  "nonzero_positions [] = Inr []"
| "nonzero_positions (position # rest) =
     (case py_get position ''positionAmt'' (PInt 0) of
        Inl e \<Rightarrow> Inl e
      | Inr a \<Rightarrow>
          (case py_float a of
             Inl e \<Rightarrow> Inl e
           | Inr r \<Rightarrow>
               (case nonzero_positions rest of
                  Inl e \<Rightarrow> Inl e
                | Inr kept \<Rightarrow> Inr (if r \<noteq> 0 then position # kept else kept))))"

definition get_positions ::
  "platform \<Rightarrow> bot \<Rightarrow> world \<Rightarrow> (pyerr + pyval list option) \<times> world" where
  "get_positions pf b w =
     (let params = [(''timestamp'', PInt (time_ms pf (ticks w)))];
          params' = dict_set params ''signature'' (PStr (generate_signature pf b params))
      in case make_request pf b ''GET'' ''/fapi/v3/positionRisk'' (Some params') None (tick w) of
           (Inl e, w') \<Rightarrow> (Inl e, w')
         | (Inr positions, w') \<Rightarrow>
             if py_truthy positions then
               (case py_iter positions of
                  Inl e \<Rightarrow> (Inl e, w')
                | Inr ps \<Rightarrow>
                    (case nonzero_positions ps of
                       Inl e \<Rightarrow> (Inl e, w')
                     | Inr kept \<Rightarrow> (Inr (Some kept), w')))
             else (Inr None, w'))"

text \<open>\<^verbatim>\<open>get_funding_rate\<close>, lines 81 to 86: an unsigned GET.\<close>

definition get_funding_rate ::
  "platform \<Rightarrow> bot \<Rightarrow> pyval \<Rightarrow> world \<Rightarrow> (pyerr + pyval) \<times> world" where
  "get_funding_rate pf b symbol w =
     make_request pf b ''GET'' (''/fapi/v1/premiumIndex?symbol='' @ py_format pf symbol)
       None None w"

text \<open>
  \<^verbatim>\<open>hedge_positions\<close>, lines 88 to 106. The dictionary literal of lines 94 to 102
  reads the position's fields in order and the clock last.
\<close>

definition hedge_params :: "int \<Rightarrow> pyval \<Rightarrow> pyerr + (string \<times> pyval) list" where
  "hedge_params ts position =
     (case py_getitem position ''symbol'' of
        Inl e \<Rightarrow> Inl e
      | Inr symbol \<Rightarrow>
          (case py_getitem position ''positionSide'' of
             Inl e \<Rightarrow> Inl e
           | Inr pside \<Rightarrow>
               (case py_getitem position ''positionAmt'' of
                  Inl e \<Rightarrow> Inl e
                | Inr amt \<Rightarrow>
                    (case py_float amt of
                       Inl e \<Rightarrow> Inl e
                     | Inr q \<Rightarrow>
                         Inr [(''symbol'', symbol),
                              (''side'', PStr (if pside = PStr ''SHORT'' then ''BUY'' else ''SELL'')),
                              (''type'', PStr ''MARKET''),
                              (''positionSide'',
                                 PStr (if pside = PStr ''SHORT'' then ''LONG'' else ''SHORT'')),
                              (''quantity'', PFloat \<bar>q\<bar>),
                              (''timestamp'', PInt ts)]))))"

text \<open>Lines 103 and 104, and 124 and 125: sign, then POST the order.\<close>

definition submit_order ::
  "platform \<Rightarrow> bot \<Rightarrow> (string \<times> pyval) list \<Rightarrow> world \<Rightarrow> (pyerr + pyval) \<times> world" where
  "submit_order pf b params w =
     make_request pf b ''POST'' ''/fapi/v1/order''
       (Some (dict_set params ''signature'' (PStr (generate_signature pf b params)))) None w"

fun hedge_loop ::
  "platform \<Rightarrow> bot \<Rightarrow> pyval list \<Rightarrow> pyval list \<Rightarrow> world \<Rightarrow> (pyerr + pyval list) \<times> world" where
  "hedge_loop pf b [] hedged_orders w = (Inr hedged_orders, w)"
| "hedge_loop pf b (position # rest) hedged_orders w =
     (case hedge_params (time_ms pf (ticks w)) position of
        Inl e \<Rightarrow> (Inl e, w)
      | Inr params \<Rightarrow>
          (case submit_order pf b params (tick w) of
             (Inl e, w') \<Rightarrow> (Inl e, w')
           | (Inr response, w') \<Rightarrow> hedge_loop pf b rest (hedged_orders @ [response]) w'))"

definition hedge_positions ::
  "platform \<Rightarrow> bot \<Rightarrow> pyval list \<Rightarrow> world \<Rightarrow> (pyerr + pyval list) \<times> world" where
  "hedge_positions pf b positions w = hedge_loop pf b positions [] w"

text \<open>\<^verbatim>\<open>unwind_positions\<close>, lines 108 to 127.\<close>

definition unwind_params :: "int \<Rightarrow> pyval \<Rightarrow> pyerr + (string \<times> pyval) list" where
  "unwind_params ts order =
     (case py_getitem order ''symbol'' of
        Inl e \<Rightarrow> Inl e
      | Inr symbol \<Rightarrow>
          (case py_getitem order ''positionSide'' of
             Inl e \<Rightarrow> Inl e
           | Inr pside \<Rightarrow>
               (case py_get order ''origQty'' (PInt 0) of
                  Inl e \<Rightarrow> Inl e
                | Inr qty \<Rightarrow>
                    (case py_float qty of
                       Inl e \<Rightarrow> Inl e
                     | Inr q \<Rightarrow>
                         Inr [(''symbol'', symbol),
                              (''side'', PStr (if pside = PStr ''SHORT'' then ''BUY'' else ''SELL'')),
                              (''type'', PStr ''MARKET''),
                              (''positionSide'', pside),
                              (''quantity'', PFloat \<bar>q\<bar>),
                              (''timestamp'', PInt ts)]))))"

fun unwind_loop ::
  "platform \<Rightarrow> bot \<Rightarrow> pyval list \<Rightarrow> pyval list \<Rightarrow> world \<Rightarrow> (pyerr + pyval list) \<times> world" where
  "unwind_loop pf b [] unwind_orders w = (Inr unwind_orders, w)"
| "unwind_loop pf b (order # rest) unwind_orders w =
     (case unwind_params (time_ms pf (ticks w)) order of
        Inl e \<Rightarrow> (Inl e, w)
      | Inr params \<Rightarrow>
          (case submit_order pf b params (tick w) of
             (Inl e, w') \<Rightarrow> (Inl e, w')
           | (Inr response, w') \<Rightarrow> unwind_loop pf b rest (unwind_orders @ [response]) w'))"

definition unwind_positions ::
  "platform \<Rightarrow> bot \<Rightarrow> pyval list \<Rightarrow> world \<Rightarrow> (pyerr + pyval list) \<times> world" where
  "unwind_positions pf b orders w = unwind_loop pf b orders [] w"

section \<open>The decision workflow\<close>

text \<open>
  The test of lines 176 to 181 on one position's side and the funding answer.
  \<^verbatim>\<open>and\<close> evaluates its right operand only when the left one holds, so the
  funding answer is read only for a LONG or a SHORT side.
\<close>

text \<open>
  The literal \<^verbatim>\<open>0.0005\<close> of lines 176 and 179 is a binary64 value too: the one
  nearest to the decimal, slightly above it. The comparisons are between binary64
  values.
\<close>

definition rate_threshold :: rat where
  "rate_threshold = 1152921504606847 / 2 ^ 61"

definition funding_above :: "pyval \<Rightarrow> pyerr + bool" where
  "funding_above funding =
     (case py_get funding ''lastFundingRate'' (PInt 0) of
        Inl e \<Rightarrow> Inl e
      | Inr v \<Rightarrow> (case py_float v of Inl e \<Rightarrow> Inl e | Inr r \<Rightarrow> Inr (rate_threshold < r)))"

definition funding_below :: "pyval \<Rightarrow> pyerr + bool" where
  "funding_below funding =
     (case py_get funding ''lastFundingRate'' (PInt 0) of
        Inl e \<Rightarrow> Inl e
      | Inr v \<Rightarrow> (case py_float v of Inl e \<Rightarrow> Inl e | Inr r \<Rightarrow> Inr (r < - rate_threshold)))"

definition needs_hedge :: "pyval \<Rightarrow> pyval \<Rightarrow> pyerr + bool" where
  "needs_hedge side funding =
     (case (if side = PStr ''LONG'' then funding_above funding else Inr False) of
        Inl e \<Rightarrow> Inl e
      | Inr True \<Rightarrow> Inr True
      | Inr False \<Rightarrow>
          (if side = PStr ''SHORT'' then funding_below funding else Inr False))"

text \<open>The loop of lines 168 to 181, with \<^verbatim>\<open>adjust\<close> as accumulator.\<close>

fun select_loop ::
  "platform \<Rightarrow> bot \<Rightarrow> pyval list \<Rightarrow> pyval list \<Rightarrow> world \<Rightarrow> (pyerr + pyval list) \<times> world" where
  "select_loop pf b [] adjust w = (Inr adjust, w)"
| "select_loop pf b (position # rest) adjust w =
     (case py_getitem position ''symbol'' of
        Inl e \<Rightarrow> (Inl e, w)
      | Inr symbol \<Rightarrow>
          (case py_getitem position ''positionSide'' of
             Inl e \<Rightarrow> (Inl e, w)
           | Inr side \<Rightarrow>
               (case get_funding_rate pf b symbol w of
                  (Inl e, w') \<Rightarrow> (Inl e, w')
                | (Inr funding, w') \<Rightarrow>
                    (case needs_hedge side funding of
                       Inl e \<Rightarrow> (Inl e, w')
                     | Inr sel \<Rightarrow>
                         select_loop pf b rest (if sel then adjust @ [position] else adjust) w'))))"

text \<open>
  The body of the \<^verbatim>\<open>try\<close> of \<^verbatim>\<open>main\<close>, lines 161 to 198: \<open>Inr ()\<close> when it
  returns, \<open>Inl e\<close> when an exception leaves it.
\<close>

definition run_workflow :: "platform \<Rightarrow> bot \<Rightarrow> world \<Rightarrow> (pyerr + unit) \<times> world" where
  "run_workflow pf b w =
     (case get_positions pf b w of
        (Inl e, w1) \<Rightarrow> (Inl e, w1)
      | (Inr None, w1) \<Rightarrow> (Inr (), w1)
      | (Inr (Some positions), w1) \<Rightarrow>
          if positions = [] then (Inr (), w1)
          else
            (case select_loop pf b positions [] (tick w1) of
               (Inl e, w2) \<Rightarrow> (Inl e, w2)
             | (Inr adjust, w2) \<Rightarrow>
                 if adjust = [] then (Inr (), w2)
                 else
                   (case hedge_positions pf b adjust w2 of
                      (Inl e, w3) \<Rightarrow> (Inl e, w3)
                    | (Inr hedged_orders, w3) \<Rightarrow>
                        (case unwind_positions pf b hedged_orders w3 of
                           (Inl e, w4) \<Rightarrow> (Inl e, w4)
                         | (Inr unwind_orders, w4) \<Rightarrow> (Inr (), w4)))))"

text \<open>
  \<^verbatim>\<open>main\<close>, lines 140 to 202, as the exit code of the process and the final world:
  1 on a configuration error, 1 when an exception leaves the workflow, 0 when it returns.
\<close>

definition main :: "platform \<Rightarrow> world \<Rightarrow> int \<times> world" where
  "main pf w =
     (case new_bot pf None None None of
        Inl e \<Rightarrow> (1, w)
      | Inr b \<Rightarrow>
          (case run_workflow pf b w of
             (Inl e, w') \<Rightarrow> (1, w')
           | (Inr u, w') \<Rightarrow> (0, w')))"

text \<open>The orders submitted in a run: the POST requests among those sent.\<close>

definition orders_sent :: "world \<Rightarrow> request list" where
  "orders_sent w = filter (\<lambda>r. req_method r = ''POST'') (sent w)"

section \<open>Notions used to state the properties\<close>

text \<open>
  What \<^verbatim>\<open>_make_request\<close> returns for a dispatched request: the decoded body, or
  \<^verbatim>\<open>None\<close> for a failed call.
\<close>

definition answer :: "platform \<Rightarrow> request list \<Rightarrow> request \<Rightarrow> pyval" where
  "answer pf history r = (case transport pf history r of None \<Rightarrow> PNone | Some j \<Rightarrow> j)"

text \<open>A request with the default header, and the three kinds the client sends.\<close>

definition api_request ::
  "bot \<Rightarrow> string \<Rightarrow> string \<Rightarrow> (string \<times> pyval) list option \<Rightarrow> request" where
  "api_request b m endpoint params =
     \<lparr>req_method = m, req_url = base_url b @ endpoint,
      req_headers = [(''X-MBX-APIKEY'', api_key b)], req_params = params\<rparr>"

definition signed :: "platform \<Rightarrow> bot \<Rightarrow> (string \<times> pyval) list \<Rightarrow> (string \<times> pyval) list" where
  "signed pf b params = params @ [(''signature'', PStr (generate_signature pf b params))]"

definition order_request :: "platform \<Rightarrow> bot \<Rightarrow> (string \<times> pyval) list \<Rightarrow> request" where
  "order_request pf b params =
     api_request b ''POST'' ''/fapi/v1/order'' (Some (signed pf b params))"

definition risk_request :: "platform \<Rightarrow> bot \<Rightarrow> int \<Rightarrow> request" where
  "risk_request pf b ts =
     api_request b ''GET'' ''/fapi/v3/positionRisk'' (Some (signed pf b [(''timestamp'', PInt ts)]))"

definition funding_request :: "platform \<Rightarrow> bot \<Rightarrow> pyval \<Rightarrow> request" where
  "funding_request pf b symbol =
     api_request b ''GET'' (''/fapi/v1/premiumIndex?symbol='' @ py_format pf symbol) None"

text \<open>
  The two order loops have one shape and differ in how the parameters are built;
  \<open>order_loop\<close> is that shape, with the builder as argument.
\<close>

fun order_loop ::
  "(int \<Rightarrow> pyval \<Rightarrow> pyerr + (string \<times> pyval) list) \<Rightarrow> platform \<Rightarrow> bot \<Rightarrow> pyval list \<Rightarrow>
   pyval list \<Rightarrow> world \<Rightarrow> (pyerr + pyval list) \<times> world" where
  "order_loop build pf b [] acc w = (Inr acc, w)"
| "order_loop build pf b (x # xs) acc w =
     (case build (time_ms pf (ticks w)) x of
        Inl e \<Rightarrow> (Inl e, w)
      | Inr params \<Rightarrow>
          (case submit_order pf b params (tick w) of
             (Inl e, w') \<Rightarrow> (Inl e, w')
           | (Inr response, w') \<Rightarrow> order_loop build pf b xs (acc @ [response]) w'))"

text \<open>
  A request whose last parameter is the signature of the parameters before it, none of
  which is itself called \<^verbatim>\<open>signature\<close>.
\<close>

definition signature_last :: "platform \<Rightarrow> bot \<Rightarrow> request \<Rightarrow> bool" where
  "signature_last pf b r =
     (case req_params r of
        None \<Rightarrow> False
      | Some ps \<Rightarrow>
          ps \<noteq> [] \<and>
          last ps = (''signature'', PStr (hmac_sha256_hex pf (api_secret b) (query_string pf (butlast ps)))) \<and>
          ''signature'' \<notin> fst ` set (butlast ps))"

text \<open>
  The signing rule in the specification's words: the pairs \<^verbatim>\<open>key=value\<close>, each
  after the first preceded by \<^verbatim>\<open>&\<close>, in the mapping's order, under HMAC-SHA256
  keyed by the secret.
\<close>

definition spec_query_string :: "platform \<Rightarrow> (string \<times> pyval) list \<Rightarrow> string" where
  "spec_query_string pf params =
     (case params of
        [] \<Rightarrow> []
      | kv # rest \<Rightarrow>
          foldl (\<lambda>acc p. acc @ ''&'' @ fst p @ ''='' @ py_format pf (snd p))
            (fst kv @ ''='' @ py_format pf (snd kv)) rest)"

definition spec_signature :: "platform \<Rightarrow> string \<Rightarrow> (string \<times> pyval) list \<Rightarrow> string" where
  "spec_signature pf secret params = hmac_sha256_hex pf secret (spec_query_string pf params)"

text \<open>A parameter of a dispatched request, by name.\<close>

definition order_field :: "request \<Rightarrow> string \<Rightarrow> pyval option" where
  "order_field r key = (case req_params r of None \<Rightarrow> None | Some ps \<Rightarrow> map_of ps key)"

text \<open>The amount of a position as line 78 reads it.\<close>

definition position_amt :: "pyval \<Rightarrow> pyerr + rat" where
  "position_amt position =
     (case py_get position ''positionAmt'' (PInt 0) of Inl e \<Rightarrow> Inl e | Inr a \<Rightarrow> py_float a)"

text \<open>A position or a hedge response whose fields the order builders can read.\<close>

definition hedgeable :: "pyval \<Rightarrow> bool" where
  "hedgeable position = (case hedge_params 0 position of Inl e \<Rightarrow> False | Inr ps \<Rightarrow> True)"

definition unwindable :: "pyval \<Rightarrow> bool" where
  "unwindable order = (case unwind_params 0 order of Inl e \<Rightarrow> False | Inr ps \<Rightarrow> True)"

section \<open>Sample data\<close>

text \<open>
  A platform with a scripted exchange: the \<open>n\<close>-th request of a run gets the \<open>n\<close>-th
  entry of \<open>answers\<close>, and every request past the script fails. The digest and the
  float text are stand-ins: no property below depends on what they compute.
\<close>

definition scripted :: "pyval option list \<Rightarrow> request list \<Rightarrow> request \<Rightarrow> pyval option" where
  "scripted answers history r =
     (if length history < length answers then answers ! length history else None)"

definition sample_platform :: "pyval option list \<Rightarrow> platform" where
  "sample_platform answers =
     \<lparr>hmac_sha256_hex = (\<lambda>key msg. ''hmac:'' @ key @ '':'' @ msg),
      py_repr = (\<lambda>v. ''<repr>''),
      transport = scripted answers,
      time_ms = (\<lambda>n. 1700000000000 + int n),
      keyring_get_password =
        (\<lambda>service user.
           if service = ''BINANCE_API_KEY'' then Some ''k3y''
           else if service = ''BINANCE_API_SECRET'' then Some ''s3cret''
           else None),
      environ = (\<lambda>name. None)\<rparr>"

definition sample_bot :: bot where
  "sample_bot = \<lparr>api_key = ''k3y'', api_secret = ''s3cret'', base_url = ''https://fapi.binance.com''\<rparr>"

definition fresh_world :: world where
  "fresh_world = \<lparr>sent = [], ticks = 0\<rparr>"

definition position_of :: "string \<Rightarrow> string \<Rightarrow> string \<Rightarrow> pyval" where
  "position_of symbol side amt =
     PDict [(''symbol'', PStr symbol), (''positionSide'', PStr side), (''positionAmt'', PStr amt)]"

definition funding_of :: "string \<Rightarrow> string \<Rightarrow> pyval" where
  "funding_of symbol rate =
     PDict [(''symbol'', PStr symbol), (''lastFundingRate'', PStr rate),
            (''nextFundingTime'', PInt 1700006400000)]"

definition filled_order :: "string \<Rightarrow> string \<Rightarrow> string \<Rightarrow> pyval" where
  "filled_order symbol side qty =
     PDict [(''orderId'', PInt 42), (''symbol'', PStr symbol), (''positionSide'', PStr side),
            (''origQty'', PStr qty)]"

section \<open>Reading floats\<close>

lemma floor_rat_numeral: "\<lfloor>numeral a / numeral b :: rat\<rfloor> = numeral a div numeral b"
  by (metis floor_divide_of_int_eq of_int_numeral)

lemma ceiling_rat_numeral: "\<lceil>numeral a / numeral b :: rat\<rceil> = - (- numeral a div numeral b)"
  by (metis ceiling_def floor_divide_of_int_eq minus_divide_left of_int_minus of_int_numeral)

lemmas float_defs = float_of_def parse_decimal_def strip_def is_space_def take_sign_def
  digit_val_def is_digit_def digit_of_def digitpart_def digits_value_def parse_exponent_def
  scale10_def round_binary64_def ilog2_def round_half_even_def pow2_def bitlen.simps
  rate_threshold_def floor_rat_numeral ceiling_rat_numeral

lemma round_binary64_zero [simp]: "round_binary64 0 = Some 0"
  by (simp add: round_binary64_def)

lemma py_float_zero: "py_float (PInt 0) = Inr 0"
  by simp

text \<open>A magnitude below half the least subnormal value rounds to zero.\<close>

lemma pow2_pos: "0 < pow2 e"
  by (simp add: pow2_def)

lemma pow2_lower: "- 1074 \<le> p \<Longrightarrow> 1 / 2 ^ 1074 \<le> pow2 p"
proof (cases "0 \<le> p")
  case True
  have "(1::rat) / 2 ^ 1074 \<le> 1" by simp
  also have "(1::rat) \<le> 2 ^ nat p" by simp
  finally show ?thesis using True by (simp add: pow2_def)
next
  case False
  assume "- 1074 \<le> p"
  with False have "nat (- p) \<le> 1074" by simp
  then have "(2::rat) ^ nat (- p) \<le> 2 ^ 1074"
    by (intro power_increasing) simp_all
  then have "(1::rat) / 2 ^ 1074 \<le> 1 / 2 ^ nat (- p)"
    by (intro divide_left_mono) simp_all
  with False show ?thesis by (simp add: pow2_def)
qed

lemma round_half_even_small: "0 \<le> x \<Longrightarrow> x < 1 / 2 \<Longrightarrow> round_half_even x = 0"
proof -
  assume a: "0 \<le> x" "x < 1 / 2"
  then have f: "\<lfloor>x\<rfloor> = 0" by (simp add: floor_eq_iff)
  with a show ?thesis by (simp add: round_half_even_def)
qed

lemma round_binary64_tiny:
  assumes "\<bar>q\<bar> < 1 / 2 ^ 1075"
  shows "round_binary64 q = Some 0"
proof (cases "q = 0")
  case True
  then show ?thesis by (simp add: round_binary64_def)
next
  case False
  define p where "p = max (ilog2 \<bar>q\<bar> - 52) (- 1074)"
  have p: "- 1074 \<le> p" by (simp add: p_def)
  have pos: "0 < pow2 p" by (rule pow2_pos)
  have "\<bar>q\<bar> < 1 / 2 * (1 / 2 ^ 1074)" using assms by simp
  also have "\<dots> \<le> 1 / 2 * pow2 p" using pow2_lower [OF p] by simp
  finally have "\<bar>q\<bar> / pow2 p < 1 / 2" using pos by (simp add: pos_divide_less_eq)
  moreover have "0 \<le> \<bar>q\<bar> / pow2 p" using pos by simp
  ultimately have r: "round_half_even (\<bar>q\<bar> / pow2 p) = 0" by (intro round_half_even_small)
  have "round_binary64 q =
          (if 2 ^ 1024 \<le> of_int (round_half_even (\<bar>q\<bar> / pow2 p)) * pow2 p then None
           else Some (if q < 0 then - (of_int (round_half_even (\<bar>q\<bar> / pow2 p)) * pow2 p)
                      else of_int (round_half_even (\<bar>q\<bar> / pow2 p)) * pow2 p))"
    by (simp only: round_binary64_def p_def Let_def False if_False)
  also have "\<dots> = Some 0" unfolding r by simp
  finally show ?thesis .
qed

text \<open>
  Readings around the threshold: the decimal 0.0005 and every decimal within half a
  unit in the last place of its binary64 value read as that value, which is also the
  value of the literal of lines 176 and 179; the next binary64 value is read from
  0.00050000000000000007 on.
\<close>

lemma threshold_readings:
  "round_binary64 (5 / 10000) = Some rate_threshold"
  "py_float (PStr ''0.0005'') = Inr rate_threshold"
  "py_float (PStr ''0.00050000'') = Inr rate_threshold"
  "py_float (PStr ''0.00050000000000000001'') = Inr rate_threshold"
  "py_float (PStr ''0.00050000000000000006'') = Inr rate_threshold"
  "py_float (PStr ''0.00050000000000000007'') = Inr (4611686018427389 / 2 ^ 63)"
  "py_float (PStr ''-0.0005'') = Inr (- rate_threshold)"
  by (simp_all add: float_defs)

text \<open>
  Other readings: an amount too small for binary64 is zero, white space is stripped and
  a trailing separator U+001F is not, underscores may separate digits, an integer is
  rounded, and one beyond the binary64 range raises OverflowError.
\<close>

lemma tiny_reading: "float_of ''1e-400'' = Some 0" "py_float (PStr ''1e-400'') = Inr 0"
proof -
  have "parse_decimal ''1e-400'' = Some (1 / 10 ^ 400)"
    by (simp add: float_defs)
  moreover have "round_binary64 (1 / 10 ^ 400) = Some 0"
    by (rule round_binary64_tiny) simp
  ultimately show "float_of ''1e-400'' = Some 0" by (simp add: float_of_def)
  then show "py_float (PStr ''1e-400'') = Inr 0" by simp
qed

lemma more_readings:
  "py_float (PStr ''-2.5'') = Inr (- (5 / 2))"
  "py_float (PStr ''0.000'') = Inr 0"
  "py_float (PStr ''-0.0'') = Inr 0"
  "py_float (PStr ''  1_000.5 '') = Inr (2001 / 2)"
  "py_float (PStr ''1E+2'') = Inr 100"
  "py_float (PStr [CHR 0xA0, CHR ''2'', CHR ''.'', CHR ''5'', CHR 0x85]) = Inr (5 / 2)"
  "py_float (PStr [CHR ''2'', CHR ''.'', CHR ''5'', CHR 0x1F]) = Inl ValueError"
  "py_float (PStr ''1__0'') = Inl ValueError"
  "py_float (PStr ''1e'') = Inl ValueError"
  "py_float (PStr ''abc'') = Inl ValueError"
  "py_float (PInt (2 ^ 53 + 1)) = Inr (2 ^ 53)"
  "py_float (PInt (2 ^ 53 + 3)) = Inr (2 ^ 53 + 4)"
  "py_float PNone = Inl TypeError"
  by (simp_all add: float_defs)

lemma integer_overflow: "py_float (PInt (10 ^ 400)) = Inl OverflowError"
  by (simp add: float_defs)

section \<open>Signing\<close>

lemma py_join_Cons: "py_join sep (x # xs) = x @ concat (map (\<lambda>y. sep @ y) xs)"
  by (induction xs arbitrary: x) simp_all

lemma foldl_append_sep:
  "foldl (\<lambda>acc p. acc @ sep @ g p) a rest = a @ concat (map (\<lambda>p. sep @ g p) rest)"
  by (induction rest arbitrary: a) simp_all

lemma query_string_spec: "query_string pf params = spec_query_string pf params"
proof (cases params)
  case Nil
  then show ?thesis by (simp add: query_string_def spec_query_string_def)
next
  case (Cons kv rest)
  have "foldl (\<lambda>acc p. acc @ ''&'' @ fst p @ ''='' @ py_format pf (snd p))
          (fst kv @ ''='' @ py_format pf (snd kv)) rest =
        (fst kv @ ''='' @ py_format pf (snd kv)) @
          concat (map (\<lambda>p. ''&'' @ fst p @ ''='' @ py_format pf (snd p)) rest)"
    by (rule foldl_append_sep [where g = "\<lambda>p. fst p @ ''='' @ py_format pf (snd p)"])
  with Cons show ?thesis
    by (simp add: query_string_def spec_query_string_def py_join_Cons comp_def)
qed

text \<open>
  C2. For every parameter dictionary and every bot, \<open>generate_signature\<close> returns
  the HMAC-SHA256 hex digest, keyed by the bot's API secret, of the string that joins
  the \<^verbatim>\<open>key=value\<close> pairs with \<^verbatim>\<open>&\<close> in the dictionary's order.
\<close>

theorem generate_signature_is_hmac_of_query:
  "generate_signature pf b params = spec_signature pf (api_secret b) params"
  by (simp add: generate_signature_def spec_signature_def query_string_spec)

section \<open>Requests\<close>

lemma upper_GET: "str_upper ''GET'' = ''GET''"
  by (simp add: str_upper_def upper_char_def)

lemma upper_POST: "str_upper ''POST'' = ''POST''"
  by (simp add: str_upper_def upper_char_def)

lemma make_request_GET:
  "make_request pf b ''GET'' endpoint params None w =
     (Inr (answer pf (sent w) (api_request b ''GET'' endpoint params)),
      w\<lparr>sent := sent w @ [api_request b ''GET'' endpoint params]\<rparr>)"
  unfolding make_request_def Let_def upper_GET answer_def api_request_def by simp

lemma make_request_POST:
  "make_request pf b ''POST'' endpoint params None w =
     (Inr (answer pf (sent w) (api_request b ''POST'' endpoint params)),
      w\<lparr>sent := sent w @ [api_request b ''POST'' endpoint params]\<rparr>)"
  unfolding make_request_def Let_def upper_POST answer_def api_request_def by simp

lemma dict_set_fresh: "key \<notin> fst ` set d \<Longrightarrow> dict_set d key v = d @ [(key, v)]"
  by (induction d) auto

lemma submit_order_fresh:
  "''signature'' \<notin> fst ` set ps \<Longrightarrow>
   submit_order pf b ps w =
     (Inr (answer pf (sent w) (order_request pf b ps)),
      w\<lparr>sent := sent w @ [order_request pf b ps]\<rparr>)"
  by (simp add: submit_order_def make_request_POST dict_set_fresh order_request_def signed_def)

lemma get_funding_rate_eq:
  "get_funding_rate pf b symbol w =
     (Inr (answer pf (sent w) (funding_request pf b symbol)),
      w\<lparr>sent := sent w @ [funding_request pf b symbol]\<rparr>)"
  by (simp add: get_funding_rate_def make_request_GET funding_request_def)

lemma risk_request_sent:
  "make_request pf b ''GET'' ''/fapi/v3/positionRisk''
     (Some (dict_set [(''timestamp'', PInt ts)] ''signature''
              (PStr (generate_signature pf b [(''timestamp'', PInt ts)])))) None w =
   (Inr (answer pf (sent w) (risk_request pf b ts)), w\<lparr>sent := sent w @ [risk_request pf b ts]\<rparr>)"
  by (simp add: make_request_GET risk_request_def signed_def)

lemma get_positions_sent:
  "sent (snd (get_positions pf b w)) = sent w @ [risk_request pf b (time_ms pf (ticks w))]"
  unfolding get_positions_def Let_def risk_request_sent
  by (simp add: tick_def split: sum.splits)

lemma signature_last_signed:
  "''signature'' \<notin> fst ` set ps \<Longrightarrow>
   signature_last pf b (api_request b m endpoint (Some (signed pf b ps)))"
  by (simp add: signature_last_def api_request_def signed_def generate_signature_def)

lemma hedge_params_keys:
  "hedge_params ts x = Inr ps \<Longrightarrow>
   map fst ps = [''symbol'', ''side'', ''type'', ''positionSide'', ''quantity'', ''timestamp'']"
  by (auto simp: hedge_params_def split: sum.splits)

lemma unwind_params_keys:
  "unwind_params ts x = Inr ps \<Longrightarrow>
   map fst ps = [''symbol'', ''side'', ''type'', ''positionSide'', ''quantity'', ''timestamp'']"
  by (auto simp: unwind_params_def split: sum.splits)

lemma order_keys_fresh:
  assumes "map fst ps = [''symbol'', ''side'', ''type'', ''positionSide'', ''quantity'', ''timestamp'']"
  shows "''signature'' \<notin> fst ` set ps"
proof -
  have "fst ` set ps = set (map fst ps)" by simp
  also have "\<dots> = set [''symbol'', ''side'', ''type'', ''positionSide'', ''quantity'', ''timestamp'']"
    by (simp only: assms)
  finally show ?thesis by simp
qed

lemma hedge_params_fresh: "hedge_params ts x = Inr ps \<Longrightarrow> ''signature'' \<notin> fst ` set ps"
  by (rule order_keys_fresh, rule hedge_params_keys)

lemma unwind_params_fresh: "unwind_params ts x = Inr ps \<Longrightarrow> ''signature'' \<notin> fst ` set ps"
  by (rule order_keys_fresh, rule unwind_params_keys)

lemma hedge_loop_order_loop:
  "hedge_loop pf b xs acc w = order_loop hedge_params pf b xs acc w"
  by (induction xs arbitrary: acc w) (simp_all split: sum.splits prod.splits)

lemma unwind_loop_order_loop:
  "unwind_loop pf b xs acc w = order_loop unwind_params pf b xs acc w"
  by (induction xs arbitrary: acc w) (simp_all split: sum.splits prod.splits)

lemma order_loop_signed:
  assumes fresh: "\<And>ts x ps. build ts x = Inr ps \<Longrightarrow> ''signature'' \<notin> fst ` set ps"
  shows "\<exists>reqs. sent (snd (order_loop build pf b xs acc w)) = sent w @ reqs \<and>
                 list_all (signature_last pf b) reqs"
proof (induction xs arbitrary: acc w)
  case Nil
  show ?case by simp
next
  case (Cons x xs)
  show ?case
  proof (cases "build (time_ms pf (ticks w)) x")
    case (Inl e)
    then show ?thesis by simp
  next
    case (Inr ps)
    define r where "r = order_request pf b ps"
    define w1 where "w1 = (tick w)\<lparr>sent := sent (tick w) @ [r]\<rparr>"
    have sub: "submit_order pf b ps (tick w) = (Inr (answer pf (sent w) r), w1)"
      using fresh [OF Inr] by (simp add: submit_order_fresh r_def w1_def tick_def)
    from Cons.IH [of "acc @ [answer pf (sent w) r]" w1]
    obtain reqs where
      reqs: "sent (snd (order_loop build pf b xs (acc @ [answer pf (sent w) r]) w1)) = sent w1 @ reqs"
      and sg: "list_all (signature_last pf b) reqs"
      by blast
    have "signature_last pf b r"
      unfolding r_def order_request_def using fresh [OF Inr] by (rule signature_last_signed)
    moreover have "sent w1 = sent w @ [r]" by (simp add: w1_def tick_def)
    ultimately show ?thesis
      using Inr sub reqs sg by (intro exI [of _ "r # reqs"]) simp
  qed
qed

text \<open>
  C3. The request of \<open>get_positions\<close> and every order request of
  \<open>hedge_positions\<close> and \<open>unwind_positions\<close> carries the signature as its last
  parameter; the signature is the digest of the parameters before it, and none of those
  is called \<^verbatim>\<open>signature\<close>.
\<close>

theorem signature_is_last_and_not_signed:
  "(\<exists>r. sent (snd (get_positions pf b w)) = sent w @ [r] \<and> signature_last pf b r) \<and>
   (\<exists>reqs. sent (snd (hedge_positions pf b positions w)) = sent w @ reqs \<and>
            list_all (signature_last pf b) reqs) \<and>
   (\<exists>reqs. sent (snd (unwind_positions pf b orders w)) = sent w @ reqs \<and>
            list_all (signature_last pf b) reqs)"
proof (intro conjI)
  have "signature_last pf b (risk_request pf b (time_ms pf (ticks w)))"
    unfolding risk_request_def by (rule signature_last_signed) simp
  then show "\<exists>r. sent (snd (get_positions pf b w)) = sent w @ [r] \<and> signature_last pf b r"
    using get_positions_sent by blast
next
  show "\<exists>reqs. sent (snd (hedge_positions pf b positions w)) = sent w @ reqs \<and>
            list_all (signature_last pf b) reqs"
    unfolding hedge_positions_def hedge_loop_order_loop
    by (rule order_loop_signed) (rule hedge_params_fresh)
next
  show "\<exists>reqs. sent (snd (unwind_positions pf b orders w)) = sent w @ reqs \<and>
            list_all (signature_last pf b) reqs"
    unfolding unwind_positions_def unwind_loop_order_loop
    by (rule order_loop_signed) (rule unwind_params_fresh)
qed

section \<open>The order loops\<close>

lemma order_loop_ok:
  assumes fresh: "\<And>ts x ps. build ts x = Inr ps \<Longrightarrow> ''signature'' \<notin> fst ` set ps"
    and ok: "\<forall>x\<in>set xs. \<forall>ts. \<exists>ps. build ts x = Inr ps"
  shows "\<exists>out reqs.
           order_loop build pf b xs acc w =
             (Inr (acc @ out), w\<lparr>sent := sent w @ reqs, ticks := ticks w + length xs\<rparr>) \<and>
           length out = length xs \<and> length reqs = length xs \<and>
           (\<forall>i<length xs. \<exists>ps.
              build (time_ms pf (ticks w + i)) (xs ! i) = Inr ps \<and>
              reqs ! i = order_request pf b ps \<and>
              out ! i = answer pf (sent w @ take i reqs) (reqs ! i))"
  using ok
proof (induction xs arbitrary: acc w)
  case Nil
  show ?case by simp
next
  case (Cons x xs)
  from Cons.prems have "\<forall>ts. \<exists>ps. build ts x = Inr ps" by simp
  then obtain ps where ps: "build (time_ms pf (ticks w)) x = Inr ps"
    by blast
  define r where "r = order_request pf b ps"
  define a where "a = answer pf (sent w) r"
  define w1 where "w1 = (tick w)\<lparr>sent := sent (tick w) @ [r]\<rparr>"
  have sub: "submit_order pf b ps (tick w) = (Inr a, w1)"
    using fresh [OF ps] by (simp add: submit_order_fresh r_def a_def w1_def tick_def)
  from Cons.prems have "\<forall>x\<in>set xs. \<forall>ts. \<exists>ps. build ts x = Inr ps" by simp
  from Cons.IH [OF this, of "acc @ [a]" w1]
  obtain out reqs where
    loop: "order_loop build pf b xs (acc @ [a]) w1 =
             (Inr ((acc @ [a]) @ out), w1\<lparr>sent := sent w1 @ reqs, ticks := ticks w1 + length xs\<rparr>)"
    and lo: "length out = length xs" and lr: "length reqs = length xs"
    and each: "\<forall>i<length xs. \<exists>ps.
              build (time_ms pf (ticks w1 + i)) (xs ! i) = Inr ps \<and>
              reqs ! i = order_request pf b ps \<and>
              out ! i = answer pf (sent w1 @ take i reqs) (reqs ! i)"
    by blast
  have w1s: "sent w1 = sent w @ [r]" and w1t: "ticks w1 = Suc (ticks w)"
    by (simp_all add: w1_def tick_def)
  have weq: "w1\<lparr>sent := sent w1 @ reqs, ticks := ticks w1 + length xs\<rparr> =
             w\<lparr>sent := sent w @ (r # reqs), ticks := ticks w + length (x # xs)\<rparr>"
    by (simp add: w1_def tick_def)
  have run: "order_loop build pf b (x # xs) acc w =
               (Inr (acc @ (a # out)), w\<lparr>sent := sent w @ (r # reqs), ticks := ticks w + length (x # xs)\<rparr>)"
    using ps sub loop weq by simp
  have idx: "\<exists>ps. build (time_ms pf (ticks w + i)) ((x # xs) ! i) = Inr ps \<and>
              (r # reqs) ! i = order_request pf b ps \<and>
              (a # out) ! i = answer pf (sent w @ take i (r # reqs)) ((r # reqs) ! i)"
    if "i < length (x # xs)" for i
  proof (cases i)
    case 0
    then show ?thesis using ps by (simp add: r_def a_def)
  next
    case (Suc j)
    with that have "j < length xs" by simp
    with each obtain ps' where
      "build (time_ms pf (ticks w1 + j)) (xs ! j) = Inr ps'"
      "reqs ! j = order_request pf b ps'"
      "out ! j = answer pf (sent w1 @ take j reqs) (reqs ! j)"
      by blast
    then show ?thesis using Suc by (simp add: w1s w1t)
  qed
  show ?case
    apply (rule exI [of _ "a # out"])
    apply (rule exI [of _ "r # reqs"])
    using run lo lr idx by simp
qed

lemma order_loop_raises:
  assumes fresh: "\<And>ts x ps. build ts x = Inr ps \<Longrightarrow> ''signature'' \<notin> fst ` set ps"
    and bad: "\<And>ts x. P x \<Longrightarrow> build ts x = Inl e0"
    and ex: "\<exists>x\<in>set xs. P x"
  shows "\<exists>e w' reqs.
           order_loop build pf b xs acc w = (Inl e, w') \<and> sent w' = sent w @ reqs \<and>
           length reqs \<le> length (takeWhile (\<lambda>x. \<not> P x) xs) \<and>
           (\<forall>i<length reqs. \<exists>ps.
              build (time_ms pf (ticks w + i)) (xs ! i) = Inr ps \<and>
              reqs ! i = order_request pf b ps) \<and>
           ((\<forall>x\<in>set (takeWhile (\<lambda>x. \<not> P x) xs). \<forall>ts. \<exists>ps. build ts x = Inr ps) \<longrightarrow>
              e = e0 \<and> length reqs = length (takeWhile (\<lambda>x. \<not> P x) xs))"
  using ex
proof (induction xs arbitrary: acc w)
  case Nil
  then show ?case by simp
next
  case (Cons x xs)
  show ?case
  proof (cases "P x")
    case True
    then have "order_loop build pf b (x # xs) acc w = (Inl e0, w)"
      by (simp add: bad)
    with True show ?thesis by simp
  next
    case notP: False
    with Cons.prems have ex': "\<exists>x\<in>set xs. P x" by simp
    show ?thesis
    proof (cases "build (time_ms pf (ticks w)) x")
      case (Inl e)
      then have run: "order_loop build pf b (x # xs) acc w = (Inl e, w)" by simp
      have neg: "\<not> (\<forall>y\<in>set (takeWhile (\<lambda>x. \<not> P x) (x # xs)). \<forall>ts. \<exists>ps. build ts y = Inr ps)"
      proof
        assume "\<forall>y\<in>set (takeWhile (\<lambda>x. \<not> P x) (x # xs)). \<forall>ts. \<exists>ps. build ts y = Inr ps"
        with notP have "\<forall>ts. \<exists>ps. build ts x = Inr ps" by simp
        then have "\<exists>ps. build (time_ms pf (ticks w)) x = Inr ps" by (rule spec)
        with Inl show False by simp
      qed
      then have imp: "(\<forall>y\<in>set (takeWhile (\<lambda>x. \<not> P x) (x # xs)). \<forall>ts. \<exists>ps. build ts y = Inr ps) \<longrightarrow>
              e = e0 \<and> length ([]::request list) = length (takeWhile (\<lambda>x. \<not> P x) (x # xs))"
        by blast
      show ?thesis
        apply (rule exI [of _ e])
        apply (rule exI [of _ w])
        apply (rule exI [of _ "[]"])
        apply (intro conjI)
            apply (rule run)
           apply simp
          apply simp
         apply simp
        apply (rule imp)
        done
    next
      case (Inr ps)
      define r where "r = order_request pf b ps"
      define a where "a = answer pf (sent w) r"
      define w1 where "w1 = (tick w)\<lparr>sent := sent (tick w) @ [r]\<rparr>"
      have sub: "submit_order pf b ps (tick w) = (Inr a, w1)"
        using fresh [OF Inr] by (simp add: submit_order_fresh r_def a_def w1_def tick_def)
      have w1s: "sent w1 = sent w @ [r]" and w1t: "ticks w1 = Suc (ticks w)"
        by (simp_all add: w1_def tick_def)
      from Cons.IH [OF ex', of "acc @ [a]" w1]
      obtain e w' reqs where
        loop: "order_loop build pf b xs (acc @ [a]) w1 = (Inl e, w')"
        and snt: "sent w' = sent w1 @ reqs"
        and le: "length reqs \<le> length (takeWhile (\<lambda>x. \<not> P x) xs)"
        and each: "\<forall>i<length reqs. \<exists>ps.
              build (time_ms pf (ticks w1 + i)) (xs ! i) = Inr ps \<and>
              reqs ! i = order_request pf b ps"
        and full: "(\<forall>x\<in>set (takeWhile (\<lambda>x. \<not> P x) xs). \<forall>ts. \<exists>ps. build ts x = Inr ps) \<longrightarrow>
              e = e0 \<and> length reqs = length (takeWhile (\<lambda>x. \<not> P x) xs)"
        by blast
      have run: "order_loop build pf b (x # xs) acc w = (Inl e, w')"
        using Inr sub loop by simp
      have idx: "\<exists>ps. build (time_ms pf (ticks w + i)) ((x # xs) ! i) = Inr ps \<and>
              (r # reqs) ! i = order_request pf b ps"
        if "i < length (r # reqs)" for i
      proof (cases i)
        case 0
        then show ?thesis using Inr by (simp add: r_def)
      next
        case (Suc j)
        with that have "j < length reqs" by simp
        with each show ?thesis using Suc by (simp add: w1t)
      qed
      show ?thesis
        apply (rule exI [of _ e])
        apply (rule exI [of _ w'])
        apply (rule exI [of _ "r # reqs"])
        using run snt w1s le idx full notP by simp
    qed
  qed
qed

lemma hedge_params_total: "hedgeable x \<Longrightarrow> \<exists>ps. hedge_params ts x = Inr ps"
  by (auto simp: hedgeable_def hedge_params_def split: sum.splits)

lemma unwind_params_total: "unwindable x \<Longrightarrow> \<exists>ps. unwind_params ts x = Inr ps"
  by (auto simp: unwindable_def unwind_params_def split: sum.splits)

lemma hedge_positions_ok:
  assumes "list_all hedgeable positions"
  shows "\<exists>out reqs.
           hedge_positions pf b positions w =
             (Inr out, w\<lparr>sent := sent w @ reqs, ticks := ticks w + length positions\<rparr>) \<and>
           length out = length positions \<and> length reqs = length positions \<and>
           (\<forall>i<length positions. \<exists>ps.
              hedge_params (time_ms pf (ticks w + i)) (positions ! i) = Inr ps \<and>
              reqs ! i = order_request pf b ps \<and>
              out ! i = answer pf (sent w @ take i reqs) (reqs ! i))"
proof -
  from assms have "\<forall>x\<in>set positions. \<forall>ts. \<exists>ps. hedge_params ts x = Inr ps"
    by (simp add: list_all_iff hedge_params_total)
  from order_loop_ok [where build = hedge_params and acc = "[]", OF hedge_params_fresh this]
  show ?thesis
    unfolding hedge_positions_def hedge_loop_order_loop by simp
qed

lemma unwind_positions_ok:
  assumes "list_all unwindable orders"
  shows "\<exists>out reqs.
           unwind_positions pf b orders w =
             (Inr out, w\<lparr>sent := sent w @ reqs, ticks := ticks w + length orders\<rparr>) \<and>
           length out = length orders \<and> length reqs = length orders \<and>
           (\<forall>i<length orders. \<exists>ps.
              unwind_params (time_ms pf (ticks w + i)) (orders ! i) = Inr ps \<and>
              reqs ! i = order_request pf b ps \<and>
              out ! i = answer pf (sent w @ take i reqs) (reqs ! i))"
proof -
  from assms have "\<forall>x\<in>set orders. \<forall>ts. \<exists>ps. unwind_params ts x = Inr ps"
    by (simp add: list_all_iff unwind_params_total)
  from order_loop_ok [where build = unwind_params and acc = "[]", OF unwind_params_fresh this]
  show ?thesis
    unfolding unwind_positions_def unwind_loop_order_loop by simp
qed

lemma hedge_params_fields:
  assumes "hedge_params ts x = Inr ps"
  shows "\<exists>symbol pside amt q.
           py_getitem x ''symbol'' = Inr symbol \<and>
           py_getitem x ''positionSide'' = Inr pside \<and>
           py_getitem x ''positionAmt'' = Inr amt \<and> py_float amt = Inr q \<and>
           ps = [(''symbol'', symbol),
                 (''side'', PStr (if pside = PStr ''SHORT'' then ''BUY'' else ''SELL'')),
                 (''type'', PStr ''MARKET''),
                 (''positionSide'', PStr (if pside = PStr ''SHORT'' then ''LONG'' else ''SHORT'')),
                 (''quantity'', PFloat \<bar>q\<bar>),
                 (''timestamp'', PInt ts)]"
proof (cases "py_getitem x ''symbol''")
  case Inl
  with assms show ?thesis by (simp add: hedge_params_def)
next
  case (Inr symbol)
  note s = this
  show ?thesis
  proof (cases "py_getitem x ''positionSide''")
    case Inl
    with assms s show ?thesis by (simp add: hedge_params_def)
  next
    case (Inr pside)
    note p = this
    show ?thesis
    proof (cases "py_getitem x ''positionAmt''")
      case Inl
      with assms s p show ?thesis by (simp add: hedge_params_def)
    next
      case (Inr amt)
      note a = this
      show ?thesis
      proof (cases "py_float amt")
        case Inl
        with assms s p a show ?thesis by (simp add: hedge_params_def)
      next
        case (Inr q)
        with assms s p a have "ps = [(''symbol'', symbol),
                 (''side'', PStr (if pside = PStr ''SHORT'' then ''BUY'' else ''SELL'')),
                 (''type'', PStr ''MARKET''),
                 (''positionSide'', PStr (if pside = PStr ''SHORT'' then ''LONG'' else ''SHORT'')),
                 (''quantity'', PFloat \<bar>q\<bar>),
                 (''timestamp'', PInt ts)]"
          by (simp only: hedge_params_def sum.case) simp
        with s p a Inr show ?thesis by blast
      qed
    qed
  qed
qed

lemma unwind_params_fields:
  assumes "unwind_params ts x = Inr ps"
  shows "\<exists>symbol pside qty q.
           py_getitem x ''symbol'' = Inr symbol \<and>
           py_getitem x ''positionSide'' = Inr pside \<and>
           py_get x ''origQty'' (PInt 0) = Inr qty \<and> py_float qty = Inr q \<and>
           ps = [(''symbol'', symbol),
                 (''side'', PStr (if pside = PStr ''SHORT'' then ''BUY'' else ''SELL'')),
                 (''type'', PStr ''MARKET''),
                 (''positionSide'', pside),
                 (''quantity'', PFloat \<bar>q\<bar>),
                 (''timestamp'', PInt ts)]"
proof (cases "py_getitem x ''symbol''")
  case Inl
  with assms show ?thesis by (simp add: unwind_params_def)
next
  case (Inr symbol)
  note s = this
  show ?thesis
  proof (cases "py_getitem x ''positionSide''")
    case Inl
    with assms s show ?thesis by (simp add: unwind_params_def)
  next
    case (Inr pside)
    note p = this
    show ?thesis
    proof (cases "py_get x ''origQty'' (PInt 0)")
      case Inl
      with assms s p show ?thesis by (simp add: unwind_params_def)
    next
      case (Inr qty)
      note a = this
      show ?thesis
      proof (cases "py_float qty")
        case Inl
        with assms s p a show ?thesis by (simp add: unwind_params_def)
      next
        case (Inr q)
        with assms s p a have "ps = [(''symbol'', symbol),
                 (''side'', PStr (if pside = PStr ''SHORT'' then ''BUY'' else ''SELL'')),
                 (''type'', PStr ''MARKET''),
                 (''positionSide'', pside),
                 (''quantity'', PFloat \<bar>q\<bar>),
                 (''timestamp'', PInt ts)]"
          by (simp only: unwind_params_def sum.case) simp
        with s p a Inr show ?thesis by blast
      qed
    qed
  qed
qed

lemma order_request_method: "req_method (order_request pf b ps) = ''POST''"
  by (simp add: order_request_def api_request_def)

lemma order_request_url: "req_url (order_request pf b ps) = base_url b @ ''/fapi/v1/order''"
  by (simp add: order_request_def api_request_def)

lemma order_field_order_request:
  "order_field (order_request pf b ps) key =
     map_of (ps @ [(''signature'', PStr (generate_signature pf b ps))]) key"
  by (simp add: order_field_def order_request_def api_request_def signed_def)

text \<open>
  C5. When every position of the input can be read, \<open>hedge_positions\<close> returns and
  its \<open>i\<close>-th request is a MARKET order for the \<open>i\<close>-th position: BUY on the LONG
  side for a SHORT position, SELL on the SHORT side for a LONG one, with the absolute
  value of the position's amount as quantity, which is never negative.
\<close>

theorem hedge_order_opposes_position:
  assumes "list_all hedgeable positions" and "i < length positions"
  shows "\<exists>out w' reqs symbol pside amt q.
           hedge_positions pf b positions w = (Inr out, w') \<and>
           sent w' = sent w @ reqs \<and> length reqs = length positions \<and>
           py_getitem (positions ! i) ''symbol'' = Inr symbol \<and>
           py_getitem (positions ! i) ''positionSide'' = Inr pside \<and>
           py_getitem (positions ! i) ''positionAmt'' = Inr amt \<and> py_float amt = Inr q \<and>
           req_method (reqs ! i) = ''POST'' \<and>
           req_url (reqs ! i) = base_url b @ ''/fapi/v1/order'' \<and>
           order_field (reqs ! i) ''symbol'' = Some symbol \<and>
           order_field (reqs ! i) ''type'' = Some (PStr ''MARKET'') \<and>
           (pside = PStr ''SHORT'' \<longrightarrow>
              order_field (reqs ! i) ''side'' = Some (PStr ''BUY'') \<and>
              order_field (reqs ! i) ''positionSide'' = Some (PStr ''LONG'')) \<and>
           (pside = PStr ''LONG'' \<longrightarrow>
              order_field (reqs ! i) ''side'' = Some (PStr ''SELL'') \<and>
              order_field (reqs ! i) ''positionSide'' = Some (PStr ''SHORT'')) \<and>
           order_field (reqs ! i) ''quantity'' = Some (PFloat \<bar>q\<bar>) \<and> 0 \<le> \<bar>q\<bar>"
proof -
  from hedge_positions_ok [OF assms(1), of pf b w]
  obtain out reqs where
    run: "hedge_positions pf b positions w =
            (Inr out, w\<lparr>sent := sent w @ reqs, ticks := ticks w + length positions\<rparr>)"
    and lr: "length reqs = length positions"
    and each: "\<forall>i<length positions. \<exists>ps.
              hedge_params (time_ms pf (ticks w + i)) (positions ! i) = Inr ps \<and>
              reqs ! i = order_request pf b ps \<and>
              out ! i = answer pf (sent w @ take i reqs) (reqs ! i)"
    by blast
  from each assms(2) obtain ps where
    ps: "hedge_params (time_ms pf (ticks w + i)) (positions ! i) = Inr ps"
    and r: "reqs ! i = order_request pf b ps"
    by blast
  from hedge_params_fields [OF ps] obtain symbol pside amt q where
    f1: "py_getitem (positions ! i) ''symbol'' = Inr symbol"
    and f2: "py_getitem (positions ! i) ''positionSide'' = Inr pside"
    and f3: "py_getitem (positions ! i) ''positionAmt'' = Inr amt"
    and f4: "py_float amt = Inr q"
    and pseq: "ps = [(''symbol'', symbol),
                 (''side'', PStr (if pside = PStr ''SHORT'' then ''BUY'' else ''SELL'')),
                 (''type'', PStr ''MARKET''),
                 (''positionSide'', PStr (if pside = PStr ''SHORT'' then ''LONG'' else ''SHORT'')),
                 (''quantity'', PFloat \<bar>q\<bar>),
                 (''timestamp'', PInt (time_ms pf (ticks w + i)))]"
    by blast
  have g1: "order_field (reqs ! i) ''symbol'' = Some symbol"
    and g2: "order_field (reqs ! i) ''type'' = Some (PStr ''MARKET'')"
    and g3: "order_field (reqs ! i) ''side'' = Some (PStr (if pside = PStr ''SHORT'' then ''BUY'' else ''SELL''))"
    and g4: "order_field (reqs ! i) ''positionSide'' = Some (PStr (if pside = PStr ''SHORT'' then ''LONG'' else ''SHORT''))"
    and g5: "order_field (reqs ! i) ''quantity'' = Some (PFloat \<bar>q\<bar>)"
    unfolding r order_field_order_request pseq by simp_all
  have sw: "sent (w\<lparr>sent := sent w @ reqs, ticks := ticks w + length positions\<rparr>) = sent w @ reqs"
    by simp
  show ?thesis
    apply (rule exI [of _ out])
    apply (rule exI [of _ "w\<lparr>sent := sent w @ reqs, ticks := ticks w + length positions\<rparr>"])
    apply (rule exI [of _ reqs])
    apply (rule exI [of _ symbol])
    apply (rule exI [of _ pside])
    apply (rule exI [of _ amt])
    apply (rule exI [of _ q])
    using run sw lr f1 f2 f3 f4 g1 g2 g3 g4 g5
    by (simp add: r order_request_method order_request_url)
qed


text \<open>
  C6. When every hedge response of the input can be read, \<open>unwind_positions\<close>
  returns and its \<open>i\<close>-th request is a MARKET order that keeps the \<open>i\<close>-th
  response's position side, is a BUY when that side is SHORT and a SELL otherwise, and
  has the absolute value of \<^verbatim>\<open>origQty\<close> as quantity: zero when the response has no
  such field.
\<close>

theorem unwind_order_closes_hedge:
  assumes "list_all unwindable orders" and "i < length orders"
  shows "\<exists>out w' reqs symbol pside qty q.
           unwind_positions pf b orders w = (Inr out, w') \<and>
           sent w' = sent w @ reqs \<and> length reqs = length orders \<and>
           py_getitem (orders ! i) ''symbol'' = Inr symbol \<and>
           py_getitem (orders ! i) ''positionSide'' = Inr pside \<and>
           py_get (orders ! i) ''origQty'' (PInt 0) = Inr qty \<and> py_float qty = Inr q \<and>
           req_method (reqs ! i) = ''POST'' \<and>
           req_url (reqs ! i) = base_url b @ ''/fapi/v1/order'' \<and>
           order_field (reqs ! i) ''symbol'' = Some symbol \<and>
           order_field (reqs ! i) ''type'' = Some (PStr ''MARKET'') \<and>
           order_field (reqs ! i) ''positionSide'' = Some pside \<and>
           order_field (reqs ! i) ''side'' =
             Some (PStr (if pside = PStr ''SHORT'' then ''BUY'' else ''SELL'')) \<and>
           order_field (reqs ! i) ''quantity'' = Some (PFloat \<bar>q\<bar>) \<and>
           ((\<exists>kvs. orders ! i = PDict kvs \<and> map_of kvs ''origQty'' = None) \<longrightarrow>
              order_field (reqs ! i) ''quantity'' = Some (PFloat 0))"
proof -
  from unwind_positions_ok [OF assms(1), of pf b w]
  obtain out reqs where
    run: "unwind_positions pf b orders w =
            (Inr out, w\<lparr>sent := sent w @ reqs, ticks := ticks w + length orders\<rparr>)"
    and lr: "length reqs = length orders"
    and each: "\<forall>i<length orders. \<exists>ps.
              unwind_params (time_ms pf (ticks w + i)) (orders ! i) = Inr ps \<and>
              reqs ! i = order_request pf b ps \<and>
              out ! i = answer pf (sent w @ take i reqs) (reqs ! i)"
    by blast
  from each assms(2) obtain ps where
    ps: "unwind_params (time_ms pf (ticks w + i)) (orders ! i) = Inr ps"
    and r: "reqs ! i = order_request pf b ps"
    by blast
  from unwind_params_fields [OF ps] obtain symbol pside qty q where
    f1: "py_getitem (orders ! i) ''symbol'' = Inr symbol"
    and f2: "py_getitem (orders ! i) ''positionSide'' = Inr pside"
    and f3: "py_get (orders ! i) ''origQty'' (PInt 0) = Inr qty"
    and f4: "py_float qty = Inr q"
    and pseq: "ps = [(''symbol'', symbol),
                 (''side'', PStr (if pside = PStr ''SHORT'' then ''BUY'' else ''SELL'')),
                 (''type'', PStr ''MARKET''),
                 (''positionSide'', pside),
                 (''quantity'', PFloat \<bar>q\<bar>),
                 (''timestamp'', PInt (time_ms pf (ticks w + i)))]"
    by blast
  have g1: "order_field (reqs ! i) ''symbol'' = Some symbol"
    and g2: "order_field (reqs ! i) ''type'' = Some (PStr ''MARKET'')"
    and g3: "order_field (reqs ! i) ''side'' = Some (PStr (if pside = PStr ''SHORT'' then ''BUY'' else ''SELL''))"
    and g4: "order_field (reqs ! i) ''positionSide'' = Some pside"
    and g5: "order_field (reqs ! i) ''quantity'' = Some (PFloat \<bar>q\<bar>)"
    unfolding r order_field_order_request pseq by simp_all
  have g6: "order_field (reqs ! i) ''quantity'' = Some (PFloat 0)"
    if "\<exists>kvs. orders ! i = PDict kvs \<and> map_of kvs ''origQty'' = None"
  proof -
    from that obtain kvs where "orders ! i = PDict kvs" "map_of kvs ''origQty'' = None"
      by blast
    with f3 have "qty = PInt 0" by simp
    with f4 have "q = 0" by simp
    with g5 show ?thesis by simp
  qed
  have sw: "sent (w\<lparr>sent := sent w @ reqs, ticks := ticks w + length orders\<rparr>) = sent w @ reqs"
    by simp
  show ?thesis
    apply (rule exI [of _ out])
    apply (rule exI [of _ "w\<lparr>sent := sent w @ reqs, ticks := ticks w + length orders\<rparr>"])
    apply (rule exI [of _ reqs])
    apply (rule exI [of _ symbol])
    apply (rule exI [of _ pside])
    apply (rule exI [of _ qty])
    apply (rule exI [of _ q])
    using run sw lr f1 f2 f3 f4 g1 g2 g3 g4 g5 g6
    by (simp add: r order_request_method order_request_url)
qed

lemma answer_failed: "transport pf h r = None \<Longrightarrow> answer pf h r = PNone"
  by (simp add: answer_def)

text \<open>
  C8. On readable inputs both order loops submit one order per input entry, in order,
  whatever the exchange answers: the result has the input's length, its \<open>i\<close>-th
  entry is the answer to the \<open>i\<close>-th order, and that entry is \<^verbatim>\<open>None\<close> when the
  submission failed.
\<close>

theorem order_loops_tolerate_failed_submissions:
  assumes "list_all hedgeable positions" and "list_all unwindable orders"
  shows "(\<exists>out reqs.
            hedge_positions pf b positions w =
              (Inr out, w\<lparr>sent := sent w @ reqs, ticks := ticks w + length positions\<rparr>) \<and>
            length out = length positions \<and> length reqs = length positions \<and>
            (\<forall>i<length positions.
               (\<exists>ps. hedge_params (time_ms pf (ticks w + i)) (positions ! i) = Inr ps \<and>
                     reqs ! i = order_request pf b ps) \<and>
               out ! i = answer pf (sent w @ take i reqs) (reqs ! i) \<and>
               (transport pf (sent w @ take i reqs) (reqs ! i) = None \<longrightarrow> out ! i = PNone))) \<and>
         (\<exists>out reqs.
            unwind_positions pf b orders v =
              (Inr out, v\<lparr>sent := sent v @ reqs, ticks := ticks v + length orders\<rparr>) \<and>
            length out = length orders \<and> length reqs = length orders \<and>
            (\<forall>i<length orders.
               (\<exists>ps. unwind_params (time_ms pf (ticks v + i)) (orders ! i) = Inr ps \<and>
                     reqs ! i = order_request pf b ps) \<and>
               out ! i = answer pf (sent v @ take i reqs) (reqs ! i) \<and>
               (transport pf (sent v @ take i reqs) (reqs ! i) = None \<longrightarrow> out ! i = PNone)))"
proof (rule conjI)
  from hedge_positions_ok [OF assms(1), of pf b w]
  obtain out reqs where
    run: "hedge_positions pf b positions w =
            (Inr out, w\<lparr>sent := sent w @ reqs, ticks := ticks w + length positions\<rparr>)"
    and lo: "length out = length positions" and lr: "length reqs = length positions"
    and each: "\<forall>i<length positions. \<exists>ps.
              hedge_params (time_ms pf (ticks w + i)) (positions ! i) = Inr ps \<and>
              reqs ! i = order_request pf b ps \<and>
              out ! i = answer pf (sent w @ take i reqs) (reqs ! i)"
    by blast
  have "\<forall>i<length positions.
               (\<exists>ps. hedge_params (time_ms pf (ticks w + i)) (positions ! i) = Inr ps \<and>
                     reqs ! i = order_request pf b ps) \<and>
               out ! i = answer pf (sent w @ take i reqs) (reqs ! i) \<and>
               (transport pf (sent w @ take i reqs) (reqs ! i) = None \<longrightarrow> out ! i = PNone)"
    using each answer_failed by metis
  with run lo lr show "\<exists>out reqs.
            hedge_positions pf b positions w =
              (Inr out, w\<lparr>sent := sent w @ reqs, ticks := ticks w + length positions\<rparr>) \<and>
            length out = length positions \<and> length reqs = length positions \<and>
            (\<forall>i<length positions.
               (\<exists>ps. hedge_params (time_ms pf (ticks w + i)) (positions ! i) = Inr ps \<and>
                     reqs ! i = order_request pf b ps) \<and>
               out ! i = answer pf (sent w @ take i reqs) (reqs ! i) \<and>
               (transport pf (sent w @ take i reqs) (reqs ! i) = None \<longrightarrow> out ! i = PNone))"
    by blast
next
  from unwind_positions_ok [OF assms(2), of pf b v]
  obtain out reqs where
    run: "unwind_positions pf b orders v =
            (Inr out, v\<lparr>sent := sent v @ reqs, ticks := ticks v + length orders\<rparr>)"
    and lo: "length out = length orders" and lr: "length reqs = length orders"
    and each: "\<forall>i<length orders. \<exists>ps.
              unwind_params (time_ms pf (ticks v + i)) (orders ! i) = Inr ps \<and>
              reqs ! i = order_request pf b ps \<and>
              out ! i = answer pf (sent v @ take i reqs) (reqs ! i)"
    by blast
  have "\<forall>i<length orders.
               (\<exists>ps. unwind_params (time_ms pf (ticks v + i)) (orders ! i) = Inr ps \<and>
                     reqs ! i = order_request pf b ps) \<and>
               out ! i = answer pf (sent v @ take i reqs) (reqs ! i) \<and>
               (transport pf (sent v @ take i reqs) (reqs ! i) = None \<longrightarrow> out ! i = PNone)"
    using each answer_failed by metis
  with run lo lr show "\<exists>out reqs.
            unwind_positions pf b orders v =
              (Inr out, v\<lparr>sent := sent v @ reqs, ticks := ticks v + length orders\<rparr>) \<and>
            length out = length orders \<and> length reqs = length orders \<and>
            (\<forall>i<length orders.
               (\<exists>ps. unwind_params (time_ms pf (ticks v + i)) (orders ! i) = Inr ps \<and>
                     reqs ! i = order_request pf b ps) \<and>
               out ! i = answer pf (sent v @ take i reqs) (reqs ! i) \<and>
               (transport pf (sent v @ take i reqs) (reqs ! i) = None \<longrightarrow> out ! i = PNone))"
    by blast
qed

section \<open>Reading positions\<close>

lemma nonzero_positions_filter:
  assumes "\<forall>p\<in>set ps. \<exists>a. position_amt p = Inr a"
  shows "nonzero_positions ps = Inr (filter (\<lambda>p. position_amt p \<noteq> Inr 0) ps)"
  using assms
proof (induction ps)
  case Nil
  show ?case by simp
next
  case (Cons p ps)
  from Cons.prems obtain a where a: "position_amt p = Inr a" by auto
  then obtain v where v: "py_get p ''positionAmt'' (PInt 0) = Inr v" and f: "py_float v = Inr a"
    by (auto simp: position_amt_def split: sum.splits)
  from Cons have "nonzero_positions ps = Inr (filter (\<lambda>p. position_amt p \<noteq> Inr 0) ps)"
    by simp
  with a v f show ?case by simp
qed

lemma get_positions_eq:
  "get_positions pf b w =
     (let positions = answer pf (sent w) (risk_request pf b (time_ms pf (ticks w)));
          w' = w\<lparr>sent := sent w @ [risk_request pf b (time_ms pf (ticks w))],
                  ticks := Suc (ticks w)\<rparr>
      in if py_truthy positions then
           (case py_iter positions of
              Inl e \<Rightarrow> (Inl e, w')
            | Inr ps \<Rightarrow>
                (case nonzero_positions ps of
                   Inl e \<Rightarrow> (Inl e, w')
                 | Inr kept \<Rightarrow> (Inr (Some kept), w')))
         else (Inr None, w'))"
  unfolding get_positions_def Let_def risk_request_sent
  by (simp add: tick_def split: sum.splits)

text \<open>
  C7. When the exchange answers the position request with a non-empty list of
  positions whose amounts can be read, \<open>get_positions\<close> returns exactly the
  positions whose amount is not zero, in the order received: a zero amount is left out,
  a non-zero one is kept whatever its sign. The amount is the binary64 value that
  \<^verbatim>\<open>float\<close> reads from \<^verbatim>\<open>positionAmt\<close>.
\<close>

theorem get_positions_keeps_nonzero:
  assumes "transport pf (sent w) (risk_request pf b (time_ms pf (ticks w))) = Some (PList ps)"
    and "ps \<noteq> []"
    and "\<forall>p\<in>set ps. \<exists>a. position_amt p = Inr a"
  shows "fst (get_positions pf b w) = Inr (Some (filter (\<lambda>p. position_amt p \<noteq> Inr 0) ps))"
proof -
  from assms(1) have "answer pf (sent w) (risk_request pf b (time_ms pf (ticks w))) = PList ps"
    by (simp add: answer_def)
  with assms(2) nonzero_positions_filter [OF assms(3)] show ?thesis
    by (simp add: get_positions_eq)
qed

section \<open>Selecting positions\<close>

lemma funding_rate_read:
  assumes "py_get funding ''lastFundingRate'' (PInt 0) = Inr v" and "py_float v = Inr rate"
  shows "funding_above funding = Inr (rate_threshold < rate)"
    and "funding_below funding = Inr (rate < - rate_threshold)"
  using assms by (simp_all add: funding_above_def funding_below_def)

lemma needs_hedge_LONG:
  assumes "py_get funding ''lastFundingRate'' (PInt 0) = Inr v" and "py_float v = Inr rate"
  shows "needs_hedge (PStr ''LONG'') funding = Inr (rate_threshold < rate)"
  using funding_rate_read [OF assms] by (simp add: needs_hedge_def split: bool.splits)

lemma needs_hedge_SHORT:
  assumes "py_get funding ''lastFundingRate'' (PInt 0) = Inr v" and "py_float v = Inr rate"
  shows "needs_hedge (PStr ''SHORT'') funding = Inr (rate < - rate_threshold)"
  using funding_rate_read [OF assms] by (simp add: needs_hedge_def split: bool.splits)

lemma needs_hedge_other:
  "side \<noteq> PStr ''LONG'' \<Longrightarrow> side \<noteq> PStr ''SHORT'' \<Longrightarrow> needs_hedge side funding = Inr False"
  by (simp add: needs_hedge_def)

lemma needs_hedge_rate:
  assumes "py_get funding ''lastFundingRate'' (PInt 0) = Inr v" and "py_float v = Inr rate"
  shows "needs_hedge side funding =
           Inr ((side = PStr ''LONG'' \<and> rate_threshold < rate) \<or>
                (side = PStr ''SHORT'' \<and> rate < - rate_threshold))"
proof (cases "side = PStr ''LONG''")
  case True
  then show ?thesis using needs_hedge_LONG [OF assms] by simp
next
  case notL: False
  show ?thesis
  proof (cases "side = PStr ''SHORT''")
    case True
    then show ?thesis using needs_hedge_SHORT [OF assms] by simp
  next
    case False
    with notL show ?thesis by (simp add: needs_hedge_other)
  qed
qed

text \<open>
  C4. For a position whose funding answer carries a readable rate, one turn of the
  selection loop appends the position to \<^verbatim>\<open>adjust\<close> exactly when its side is LONG
  and the rate is strictly above 0.0005, or its side is SHORT and the rate is strictly
  below -0.0005. The rate is the binary64 value that \<^verbatim>\<open>float\<close> reads from
  \<^verbatim>\<open>lastFundingRate\<close> and 0.0005 is \<open>rate_threshold\<close>, the binary64 value of the
  literal.
\<close>

theorem selection_threshold_is_strict:
  assumes "py_getitem position ''symbol'' = Inr symbol"
    and "py_getitem position ''positionSide'' = Inr side"
    and "get_funding_rate pf b symbol w = (Inr funding, w')"
    and "py_get funding ''lastFundingRate'' (PInt 0) = Inr v"
    and "py_float v = Inr rate"
  shows "select_loop pf b (position # rest) adjust w =
           select_loop pf b rest
             (if (side = PStr ''LONG'' \<and> rate_threshold < rate) \<or>
                 (side = PStr ''SHORT'' \<and> rate < - rate_threshold)
              then adjust @ [position] else adjust) w' \<and>
         (side = PStr ''LONG'' \<longrightarrow> needs_hedge side funding = Inr (rate_threshold < rate)) \<and>
         (side = PStr ''SHORT'' \<longrightarrow> needs_hedge side funding = Inr (rate < - rate_threshold))"
proof (intro conjI impI)
  show "select_loop pf b (position # rest) adjust w =
           select_loop pf b rest
             (if (side = PStr ''LONG'' \<and> rate_threshold < rate) \<or>
                 (side = PStr ''SHORT'' \<and> rate < - rate_threshold)
              then adjust @ [position] else adjust) w'"
    using assms(1-3) needs_hedge_rate [OF assms(4,5), of side] by simp
next
  assume "side = PStr ''LONG''"
  then show "needs_hedge side funding = Inr (rate_threshold < rate)"
    using needs_hedge_LONG [OF assms(4,5)] by simp
next
  assume "side = PStr ''SHORT''"
  then show "needs_hedge side funding = Inr (rate < - rate_threshold)"
    using needs_hedge_SHORT [OF assms(4,5)] by simp
qed

text \<open>
  An absent funding answer for a LONG or SHORT position ends the loop with
  AttributeError, whatever positions remain.
\<close>

lemma absent_funding_raises:
  assumes "py_getitem position ''symbol'' = Inr symbol"
    and "py_getitem position ''positionSide'' = Inr side"
    and "side = PStr ''LONG'' \<or> side = PStr ''SHORT''"
    and "transport pf (sent w) (funding_request pf b symbol) = None"
  shows "select_loop pf b (position # rest) adjust w =
           (Inl AttributeError, w\<lparr>sent := sent w @ [funding_request pf b symbol]\<rparr>)"
proof -
  from assms(4) have "answer pf (sent w) (funding_request pf b symbol) = PNone"
    by (simp add: answer_def)
  moreover from assms(3) have "needs_hedge side PNone = Inl AttributeError"
    by (auto simp: needs_hedge_def funding_above_def funding_below_def)
  ultimately show ?thesis
    using assms(1,2) by (simp add: get_funding_rate_eq)
qed

section \<open>The workflow\<close>

lemma orders_sent_GET:
  "orders_sent (w\<lparr>sent := sent w @ [api_request b ''GET'' endpoint params]\<rparr>) = orders_sent w"
  by (simp add: orders_sent_def api_request_def)

lemma orders_sent_tick: "orders_sent (tick w) = orders_sent w"
  by (simp add: orders_sent_def tick_def)

lemma select_loop_orders:
  "orders_sent (snd (select_loop pf b ps adjust w)) = orders_sent w"
proof (induction ps arbitrary: adjust w)
  case Nil
  show ?case by simp
next
  case (Cons p ps)
  show ?case
    by (simp add: get_funding_rate_eq funding_request_def Cons.IH orders_sent_GET
        split: sum.splits)
qed

lemma get_positions_orders: "orders_sent (snd (get_positions pf b w)) = orders_sent w"
proof -
  have "orders_sent (snd (get_positions pf b w)) =
        filter (\<lambda>r. req_method r = ''POST'') (sent (snd (get_positions pf b w)))"
    by (simp add: orders_sent_def)
  also have "\<dots> = orders_sent w"
    by (simp add: get_positions_sent orders_sent_def risk_request_def api_request_def)
  finally show ?thesis .
qed

text \<open>
  C9. When \<open>get_positions\<close> returns \<^verbatim>\<open>None\<close> or an empty list, or the selection
  loop ends with nothing selected, \<open>main\<close> exits with code 0 and has submitted no
  order.
\<close>

theorem no_selection_no_orders:
  assumes "new_bot pf None None None = Inr b"
    and "get_positions pf b w = (Inr positions, w1)"
    and "positions = None \<or> positions = Some [] \<or>
         (\<exists>ps w2. positions = Some ps \<and> select_loop pf b ps [] (tick w1) = (Inr [], w2))"
  shows "fst (main pf w) = 0 \<and> orders_sent (snd (main pf w)) = orders_sent w"
proof -
  have w1: "orders_sent w1 = orders_sent w"
    using get_positions_orders [of pf b w] assms(2) by simp
  from assms(3) consider
    "positions = None" | "positions = Some []"
    | ps w2 where "positions = Some ps" "ps \<noteq> []" "select_loop pf b ps [] (tick w1) = (Inr [], w2)"
    by (cases positions) auto
  then show ?thesis
  proof cases
    case 1
    with assms(1,2) w1 show ?thesis by (simp add: main_def run_workflow_def)
  next
    case 2
    with assms(1,2) w1 show ?thesis by (simp add: main_def run_workflow_def)
  next
    case 3
    have "orders_sent w2 = orders_sent (tick w1)"
      using select_loop_orders [of pf b ps "[]" "tick w1"] 3(3) by simp
    with w1 have "orders_sent w2 = orders_sent w" by (simp add: orders_sent_tick)
    with assms(1,2) 3 show ?thesis by (simp add: main_def run_workflow_def)
  qed
qed

text \<open>
  The positions that reach \<open>hedge_positions\<close> in a run of the workflow can all be
  read: they passed the filter of \<open>get_positions\<close> and the selection loop, so the
  hedge step of a run returns, with one entry per selected position.
\<close>

lemma nonzero_positions_kept:
  assumes "nonzero_positions ps = Inr kept" and "p \<in> set kept"
  shows "p \<in> set ps \<and> (\<exists>r. position_amt p = Inr r \<and> r \<noteq> 0)"
  using assms
proof (induction ps arbitrary: kept)
  case Nil
  then show ?case by simp
next
  case (Cons x xs)
  from Cons.prems(1) obtain a r kept' where
    a: "py_get x ''positionAmt'' (PInt 0) = Inr a" and r: "py_float a = Inr r"
    and k: "nonzero_positions xs = Inr kept'"
    and eq: "kept = (if r \<noteq> 0 then x # kept' else kept')"
    by (auto split: sum.splits)
  from a r have amt: "position_amt x = Inr r" by (simp add: position_amt_def)
  show ?case
  proof (cases "p \<in> set kept'")
    case True
    with Cons.IH [OF k] show ?thesis by simp
  next
    case False
    with Cons.prems(2) eq have "p = x" "r \<noteq> 0" by (auto split: if_splits)
    with amt show ?thesis by auto
  qed
qed

lemma position_amt_field:
  assumes "position_amt p = Inr r" and "r \<noteq> 0"
  shows "\<exists>a. py_getitem p ''positionAmt'' = Inr a \<and> py_float a = Inr r"
proof (cases p)
  case (PDict kvs)
  show ?thesis
  proof (cases "map_of kvs ''positionAmt''")
    case None
    with PDict assms show ?thesis by (simp add: position_amt_def)
  next
    case (Some a)
    with PDict assms show ?thesis by (simp add: position_amt_def)
  qed
qed (use assms in \<open>simp_all add: position_amt_def\<close>)

lemma get_positions_kept:
  assumes "get_positions pf b w = (Inr (Some ps), w1)" and "p \<in> set ps"
  shows "\<exists>r. position_amt p = Inr r \<and> r \<noteq> 0"
proof -
  from assms(1) obtain qs where "nonzero_positions qs = Inr ps"
    by (auto simp: get_positions_eq Let_def split: if_splits sum.splits)
  from nonzero_positions_kept [OF this assms(2)] show ?thesis by simp
qed

lemma select_loop_selected:
  assumes "select_loop pf b ps adjust w = (Inr out, w')" and "p \<in> set out"
  shows "p \<in> set adjust \<or>
         (p \<in> set ps \<and> (\<exists>s. py_getitem p ''symbol'' = Inr s) \<and>
          (\<exists>s. py_getitem p ''positionSide'' = Inr s))"
  using assms
proof (induction ps arbitrary: adjust w)
  case Nil
  then show ?case by simp
next
  case (Cons x xs)
  from Cons.prems(1) obtain symbol side sel where
    s: "py_getitem x ''symbol'' = Inr symbol" and d: "py_getitem x ''positionSide'' = Inr side"
    and loop: "select_loop pf b xs (if sel then adjust @ [x] else adjust)
                 (w\<lparr>sent := sent w @ [funding_request pf b symbol]\<rparr>) = (Inr out, w')"
    by (auto simp: get_funding_rate_eq split: sum.splits)
  from Cons.IH [OF loop Cons.prems(2)] s d show ?case
    by (auto split: if_splits)
qed

lemma selected_positions_hedgeable:
  assumes "get_positions pf b w = (Inr (Some ps), w1)"
    and "select_loop pf b ps [] v = (Inr adjust, w2)"
  shows "list_all hedgeable adjust"
proof -
  have "hedgeable p" if "p \<in> set adjust" for p
  proof -
    from select_loop_selected [OF assms(2) that] obtain s d where
      p: "p \<in> set ps" and s: "py_getitem p ''symbol'' = Inr s"
      and d: "py_getitem p ''positionSide'' = Inr d"
      by auto
    from get_positions_kept [OF assms(1) p] obtain r where "position_amt p = Inr r" "r \<noteq> 0"
      by blast
    from position_amt_field [OF this] obtain a where
      "py_getitem p ''positionAmt'' = Inr a" "py_float a = Inr r"
      by blast
    with s d show ?thesis by (simp add: hedgeable_def hedge_params_def)
  qed
  then show ?thesis by (simp add: list_all_iff)
qed

lemma workflow_hedge_returns:
  assumes "get_positions pf b w = (Inr (Some ps), w1)"
    and "select_loop pf b ps [] v = (Inr adjust, w2)"
  shows "\<exists>out w3. hedge_positions pf b adjust w2 = (Inr out, w3) \<and> length out = length adjust"
  using hedge_positions_ok [OF selected_positions_hedgeable [OF assms], of pf b w2] by blast

lemma unwind_params_None: "unwind_params ts PNone = Inl TypeError"
  by (simp add: unwind_params_def)

lemma unwind_positions_raises:
  assumes "PNone \<in> set orders"
  shows "\<exists>e w' reqs.
           unwind_positions pf b orders w = (Inl e, w') \<and> sent w' = sent w @ reqs \<and>
           length reqs \<le> length (takeWhile (\<lambda>order. order \<noteq> PNone) orders) \<and>
           (\<forall>i<length reqs. \<exists>ps.
              unwind_params (time_ms pf (ticks w + i)) (orders ! i) = Inr ps \<and>
              reqs ! i = order_request pf b ps) \<and>
           (list_all unwindable (takeWhile (\<lambda>order. order \<noteq> PNone) orders) \<longrightarrow>
              e = TypeError \<and>
              length reqs = length (takeWhile (\<lambda>order. order \<noteq> PNone) orders))"
proof -
  have "\<exists>e w' reqs.
           order_loop unwind_params pf b orders [] w = (Inl e, w') \<and> sent w' = sent w @ reqs \<and>
           length reqs \<le> length (takeWhile (\<lambda>x. x \<noteq> PNone) orders) \<and>
           (\<forall>i<length reqs. \<exists>ps.
              unwind_params (time_ms pf (ticks w + i)) (orders ! i) = Inr ps \<and>
              reqs ! i = order_request pf b ps) \<and>
           ((\<forall>x\<in>set (takeWhile (\<lambda>x. x \<noteq> PNone) orders). \<forall>ts. \<exists>ps. unwind_params ts x = Inr ps) \<longrightarrow>
              e = TypeError \<and> length reqs = length (takeWhile (\<lambda>x. x \<noteq> PNone) orders))"
  proof (rule order_loop_raises [where P = "\<lambda>x. x = PNone"])
    show "\<And>ts x ps. unwind_params ts x = Inr ps \<Longrightarrow> ''signature'' \<notin> fst ` set ps"
      by (rule unwind_params_fresh)
    show "\<And>ts x. x = PNone \<Longrightarrow> unwind_params ts x = Inl TypeError"
      by (simp add: unwind_params_None)
    show "\<exists>x\<in>set orders. x = PNone" using assms by simp
  qed
  then obtain e w' reqs where
    run: "order_loop unwind_params pf b orders [] w = (Inl e, w')"
    and snt: "sent w' = sent w @ reqs"
    and le: "length reqs \<le> length (takeWhile (\<lambda>x. x \<noteq> PNone) orders)"
    and each: "\<forall>i<length reqs. \<exists>ps.
              unwind_params (time_ms pf (ticks w + i)) (orders ! i) = Inr ps \<and>
              reqs ! i = order_request pf b ps"
    and full: "(\<forall>x\<in>set (takeWhile (\<lambda>x. x \<noteq> PNone) orders). \<forall>ts. \<exists>ps. unwind_params ts x = Inr ps) \<longrightarrow>
              e = TypeError \<and> length reqs = length (takeWhile (\<lambda>x. x \<noteq> PNone) orders)"
    by blast
  have "list_all unwindable (takeWhile (\<lambda>x. x \<noteq> PNone) orders) \<longrightarrow>
          e = TypeError \<and> length reqs = length (takeWhile (\<lambda>x. x \<noteq> PNone) orders)"
    using full by (simp add: list_all_iff unwind_params_total)
  with run snt le each show ?thesis
    unfolding unwind_positions_def unwind_loop_order_loop by blast
qed

lemma main_aborts_in_unwind:
  assumes "new_bot pf None None None = Inr b"
    and "get_positions pf b w0 = (Inr (Some positions), w1)" and "positions \<noteq> []"
    and "select_loop pf b positions [] (tick w1) = (Inr adjust, w2)" and "adjust \<noteq> []"
    and "hedge_positions pf b adjust w2 = (Inr orders, w)"
    and "unwind_positions pf b orders w = (Inl e, w')"
  shows "main pf w0 = (1, w')"
  using assms by (simp add: main_def run_workflow_def)

text \<open>
  C10. On a list with an absent entry \<open>unwind_positions\<close> raises: it submits
  orders only for entries before the first absent one, raises TypeError at that entry
  when the entries before it can be read, and a run of \<open>main\<close> whose hedge step
  returned such a list exits with code 1.
\<close>

theorem absent_hedge_entry_aborts_unwind:
  assumes "PNone \<in> set orders"
  shows "\<exists>e w' reqs.
           unwind_positions pf b orders w = (Inl e, w') \<and> sent w' = sent w @ reqs \<and>
           length reqs \<le> length (takeWhile (\<lambda>order. order \<noteq> PNone) orders) \<and>
           (\<forall>i<length reqs. \<exists>ps.
              unwind_params (time_ms pf (ticks w + i)) (orders ! i) = Inr ps \<and>
              reqs ! i = order_request pf b ps) \<and>
           (list_all unwindable (takeWhile (\<lambda>order. order \<noteq> PNone) orders) \<longrightarrow>
              e = TypeError \<and>
              length reqs = length (takeWhile (\<lambda>order. order \<noteq> PNone) orders)) \<and>
           (\<forall>w0 w1 w2 positions adjust.
              new_bot pf None None None = Inr b \<and>
              get_positions pf b w0 = (Inr (Some positions), w1) \<and> positions \<noteq> [] \<and>
              select_loop pf b positions [] (tick w1) = (Inr adjust, w2) \<and> adjust \<noteq> [] \<and>
              hedge_positions pf b adjust w2 = (Inr orders, w) \<longrightarrow>
              main pf w0 = (1, w'))"
proof -
  from unwind_positions_raises [OF assms, of pf b w]
  obtain e w' reqs where
    run: "unwind_positions pf b orders w = (Inl e, w')" and snt: "sent w' = sent w @ reqs"
    and le: "length reqs \<le> length (takeWhile (\<lambda>order. order \<noteq> PNone) orders)"
    and each: "\<forall>i<length reqs. \<exists>ps.
              unwind_params (time_ms pf (ticks w + i)) (orders ! i) = Inr ps \<and>
              reqs ! i = order_request pf b ps"
    and full: "list_all unwindable (takeWhile (\<lambda>order. order \<noteq> PNone) orders) \<longrightarrow>
              e = TypeError \<and>
              length reqs = length (takeWhile (\<lambda>order. order \<noteq> PNone) orders)"
    by blast
  have exit: "\<forall>w0 w1 w2 positions adjust.
              new_bot pf None None None = Inr b \<and>
              get_positions pf b w0 = (Inr (Some positions), w1) \<and> positions \<noteq> [] \<and>
              select_loop pf b positions [] (tick w1) = (Inr adjust, w2) \<and> adjust \<noteq> [] \<and>
              hedge_positions pf b adjust w2 = (Inr orders, w) \<longrightarrow>
              main pf w0 = (1, w')"
    using main_aborts_in_unwind [OF _ _ _ _ _ _ run] by blast
  from run snt le each full exit show ?thesis by blast
qed

section \<open>The properties on sample runs\<close>

lemmas run_defs = main_def new_bot_def run_workflow_def get_positions_def make_request_def
  get_funding_rate_def hedge_positions_def unwind_positions_def submit_order_def
  hedge_params_def unwind_params_def needs_hedge_def funding_above_def funding_below_def
  generate_signature_def query_string_def tick_def str_upper_def upper_char_def
  str_int_def str_nat.simps
  sample_platform_def sample_bot_def scripted_def fresh_world_def position_of_def
  funding_of_def filled_order_def orders_sent_def Let_def

lemma threshold_boundaries:
  "needs_hedge (PStr ''LONG'') (funding_of ''BTCUSDT'' ''0.0005'') = Inr False"
  "needs_hedge (PStr ''LONG'') (funding_of ''BTCUSDT'' ''0.0006'') = Inr True"
  "needs_hedge (PStr ''SHORT'') (funding_of ''BTCUSDT'' ''-0.0005'') = Inr False"
  "needs_hedge (PStr ''SHORT'') (funding_of ''BTCUSDT'' ''-0.0006'') = Inr True"
  "needs_hedge (PStr ''LONG'') (funding_of ''BTCUSDT'' ''-0.0006'') = Inr False"
  "needs_hedge (PStr ''SHORT'') (funding_of ''BTCUSDT'' ''0.0006'') = Inr False"
  by (simp_all add: needs_hedge_def funding_above_def funding_below_def funding_of_def float_defs)

text \<open>
  A rate text within rounding of the threshold reads as the threshold and is not
  selected; the first text that reads as the next binary64 value is.
\<close>

lemma threshold_rounding:
  "needs_hedge (PStr ''LONG'') (funding_of ''BTCUSDT'' ''0.00050000000000000001'') = Inr False"
  "needs_hedge (PStr ''LONG'') (funding_of ''BTCUSDT'' ''0.00050000000000000006'') = Inr False"
  "needs_hedge (PStr ''LONG'') (funding_of ''BTCUSDT'' ''0.00050000000000000007'') = Inr True"
  "needs_hedge (PStr ''SHORT'') (funding_of ''BTCUSDT'' ''-0.00050000000000000001'') = Inr False"
  "needs_hedge (PStr ''SHORT'') (funding_of ''BTCUSDT'' ''-0.00050000000000000007'') = Inr True"
  by (simp_all add: needs_hedge_def funding_above_def funding_below_def funding_of_def float_defs)

text \<open>
  C1. The specification asks that a failed funding call be skipped and the workflow go
  on to the next position. In the run below the exchange lists a LONG and a SHORT
  position and the funding call for the first one fails: \<open>main\<close> exits with code 1
  after two requests, so the second position is never looked at. The test of lines 176
  to 181 raises AttributeError on an absent funding answer for a LONG and for a SHORT
  side.
\<close>

theorem failed_funding_call_aborts_workflow:
  "fst (main (sample_platform
               [Some (PList [position_of ''BTCUSDT'' ''LONG'' ''1.0'',
                             position_of ''ETHUSDT'' ''SHORT'' ''-2.5'']),
                None, Some (funding_of ''ETHUSDT'' ''-0.001'')]) fresh_world) = 1 \<and>
   map req_url (sent (snd (main (sample_platform
               [Some (PList [position_of ''BTCUSDT'' ''LONG'' ''1.0'',
                             position_of ''ETHUSDT'' ''SHORT'' ''-2.5'']),
                None, Some (funding_of ''ETHUSDT'' ''-0.001'')]) fresh_world))) =
     [''https://fapi.binance.com/fapi/v3/positionRisk'',
      ''https://fapi.binance.com/fapi/v1/premiumIndex?symbol=BTCUSDT''] \<and>
   needs_hedge (PStr ''LONG'') PNone = Inl AttributeError \<and>
   needs_hedge (PStr ''SHORT'') PNone = Inl AttributeError"
  by (simp add: run_defs float_defs)

text \<open>A LONG position at a rate of exactly 0.0005 is not selected.\<close>

theorem selection_threshold_is_strict_witness:
  "py_getitem (position_of ''BTCUSDT'' ''LONG'' ''1.0'') ''positionSide'' = Inr (PStr ''LONG'') \<and>
   py_float (PStr ''0.0005'') = Inr (rate_threshold) \<and>
   fst (select_loop (sample_platform [Some (funding_of ''BTCUSDT'' ''0.0005'')]) sample_bot
          [position_of ''BTCUSDT'' ''LONG'' ''1.0''] [] fresh_world) = Inr []"
proof -
  define pf where "pf = sample_platform [Some (funding_of ''BTCUSDT'' ''0.0005'')]"
  define p where "p = position_of ''BTCUSDT'' ''LONG'' ''1.0''"
  have h1: "py_getitem p ''symbol'' = Inr (PStr ''BTCUSDT'')"
    and h2: "py_getitem p ''positionSide'' = Inr (PStr ''LONG'')"
    by (simp_all add: p_def position_of_def)
  have h3: "get_funding_rate pf sample_bot (PStr ''BTCUSDT'') fresh_world =
              (Inr (funding_of ''BTCUSDT'' ''0.0005''),
               snd (get_funding_rate pf sample_bot (PStr ''BTCUSDT'') fresh_world))"
    by (simp add: pf_def get_funding_rate_eq answer_def sample_platform_def scripted_def
        fresh_world_def)
  have h4: "py_get (funding_of ''BTCUSDT'' ''0.0005'') ''lastFundingRate'' (PInt 0) =
              Inr (PStr ''0.0005'')"
    by (simp add: funding_of_def)
  have h5: "py_float (PStr ''0.0005'') = Inr (rate_threshold)"
    by (simp add: float_defs)
  from selection_threshold_is_strict [OF h1 h2 h3 h4 h5, of "[]" "[]"]
  have "fst (select_loop pf sample_bot [p] [] fresh_world) = Inr []"
    by simp
  with h2 h5 show ?thesis unfolding pf_def p_def by simp
qed

text \<open>
  Of a LONG position, a flat one, one whose amount is too small for binary64 and a
  SHORT one, the second and the third are left out.
\<close>

theorem get_positions_keeps_nonzero_witness:
  "fst (get_positions
          (sample_platform
             [Some (PList [position_of ''BTCUSDT'' ''LONG'' ''1.0'',
                           position_of ''XRPUSDT'' ''LONG'' ''0.000'',
                           position_of ''ADAUSDT'' ''LONG'' ''1e-400'',
                           position_of ''ETHUSDT'' ''SHORT'' ''-2.5''])])
          sample_bot fresh_world) =
   Inr (Some [position_of ''BTCUSDT'' ''LONG'' ''1.0'',
              position_of ''ETHUSDT'' ''SHORT'' ''-2.5''])"
proof -
  define ps where "ps = [position_of ''BTCUSDT'' ''LONG'' ''1.0'',
                           position_of ''XRPUSDT'' ''LONG'' ''0.000'',
                           position_of ''ADAUSDT'' ''LONG'' ''1e-400'',
                           position_of ''ETHUSDT'' ''SHORT'' ''-2.5'']"
  define pf where "pf = sample_platform [Some (PList ps)]"
  have a1: "position_amt (position_of ''BTCUSDT'' ''LONG'' ''1.0'') = Inr 1"
    and a2: "position_amt (position_of ''XRPUSDT'' ''LONG'' ''0.000'') = Inr 0"
    and a3: "position_amt (position_of ''ETHUSDT'' ''SHORT'' ''-2.5'') = Inr (- (5 / 2))"
    by (simp_all add: position_amt_def position_of_def float_defs)
  have a4: "position_amt (position_of ''ADAUSDT'' ''LONG'' ''1e-400'') = Inr 0"
    by (simp add: position_amt_def position_of_def tiny_reading)
  have h1: "transport pf (sent fresh_world)
              (risk_request pf sample_bot (time_ms pf (ticks fresh_world))) = Some (PList ps)"
    by (simp add: pf_def sample_platform_def scripted_def fresh_world_def)
  have h2: "ps \<noteq> []" by (simp add: ps_def)
  have h3: "\<forall>p\<in>set ps. \<exists>a. position_amt p = Inr a"
    by (simp add: ps_def a1 a2 a3 a4)
  from get_positions_keeps_nonzero [OF h1 h2 h3]
  have "fst (get_positions pf sample_bot fresh_world) =
          Inr (Some (filter (\<lambda>p. position_amt p \<noteq> Inr 0) ps))" .
  also have "filter (\<lambda>p. position_amt p \<noteq> Inr 0) ps =
               [position_of ''BTCUSDT'' ''LONG'' ''1.0'', position_of ''ETHUSDT'' ''SHORT'' ''-2.5'']"
    by (simp add: ps_def a1 a2 a3 a4)
  finally show ?thesis unfolding pf_def ps_def .
qed

text \<open>The hedge of a SHORT position of -2.5 is a BUY of 2.5 on the LONG side.\<close>

theorem hedge_order_opposes_position_witness:
  "list_all hedgeable [position_of ''ETHUSDT'' ''SHORT'' ''-2.5'', position_of ''BTCUSDT'' ''LONG'' ''1.0''] \<and>
   (0::nat) < length [position_of ''ETHUSDT'' ''SHORT'' ''-2.5'', position_of ''BTCUSDT'' ''LONG'' ''1.0''] \<and>
   (\<exists>out w' reqs.
      hedge_positions (sample_platform []) sample_bot
        [position_of ''ETHUSDT'' ''SHORT'' ''-2.5'', position_of ''BTCUSDT'' ''LONG'' ''1.0'']
        fresh_world = (Inr out, w') \<and>
      sent w' = sent fresh_world @ reqs \<and> length reqs = 2 \<and>
      order_field (reqs ! 0) ''type'' = Some (PStr ''MARKET'') \<and>
      order_field (reqs ! 0) ''side'' = Some (PStr ''BUY'') \<and>
      order_field (reqs ! 0) ''positionSide'' = Some (PStr ''LONG'') \<and>
      order_field (reqs ! 0) ''quantity'' = Some (PFloat (5 / 2)))"
proof -
  define ps where "ps = [position_of ''ETHUSDT'' ''SHORT'' ''-2.5'', position_of ''BTCUSDT'' ''LONG'' ''1.0'']"
  have h1: "list_all hedgeable ps"
    by (simp add: ps_def hedgeable_def hedge_params_def position_of_def float_defs)
  have h2: "(0::nat) < length ps" by (simp add: ps_def)
  from hedge_order_opposes_position [OF h1 h2, of "sample_platform []" sample_bot fresh_world]
  obtain out w' reqs symbol pside amt q where
    run: "hedge_positions (sample_platform []) sample_bot ps fresh_world = (Inr out, w')"
    and snt: "sent w' = sent fresh_world @ reqs" and len: "length reqs = length ps"
    and side: "py_getitem (ps ! 0) ''positionSide'' = Inr pside"
    and amt: "py_getitem (ps ! 0) ''positionAmt'' = Inr amt" and q: "py_float amt = Inr q"
    and ty: "order_field (reqs ! 0) ''type'' = Some (PStr ''MARKET'')"
    and short: "pside = PStr ''SHORT'' \<longrightarrow>
              order_field (reqs ! 0) ''side'' = Some (PStr ''BUY'') \<and>
              order_field (reqs ! 0) ''positionSide'' = Some (PStr ''LONG'')"
    and qty: "order_field (reqs ! 0) ''quantity'' = Some (PFloat \<bar>q\<bar>)"
    by blast
  from side have "pside = PStr ''SHORT''" by (simp add: ps_def position_of_def)
  with short have s: "order_field (reqs ! 0) ''side'' = Some (PStr ''BUY'')"
    "order_field (reqs ! 0) ''positionSide'' = Some (PStr ''LONG'')" by simp_all
  from amt have "amt = PStr ''-2.5''" by (simp add: ps_def position_of_def)
  with q have "q = - (5 / 2)" by (simp add: float_defs)
  with qty have qq: "order_field (reqs ! 0) ''quantity'' = Some (PFloat (5 / 2))" by simp
  from len have l2: "length reqs = 2" by (simp add: ps_def)
  from h1 h2 run snt l2 ty s qq show ?thesis unfolding ps_def by blast
qed


text \<open>A hedge response without \<^verbatim>\<open>origQty\<close> is unwound with quantity zero.\<close>

theorem unwind_order_closes_hedge_witness:
  "list_all unwindable
     [filled_order ''BTCUSDT'' ''SHORT'' ''1.0'',
      PDict [(''symbol'', PStr ''ETHUSDT''), (''positionSide'', PStr ''LONG'')]] \<and>
   (\<exists>out w' reqs.
      unwind_positions (sample_platform []) sample_bot
        [filled_order ''BTCUSDT'' ''SHORT'' ''1.0'',
         PDict [(''symbol'', PStr ''ETHUSDT''), (''positionSide'', PStr ''LONG'')]]
        fresh_world = (Inr out, w') \<and>
      sent w' = sent fresh_world @ reqs \<and> length reqs = 2 \<and>
      order_field (reqs ! Suc 0) ''type'' = Some (PStr ''MARKET'') \<and>
      order_field (reqs ! Suc 0) ''positionSide'' = Some (PStr ''LONG'') \<and>
      order_field (reqs ! Suc 0) ''side'' = Some (PStr ''SELL'') \<and>
      order_field (reqs ! Suc 0) ''quantity'' = Some (PFloat 0))"
proof -
  define os where "os = [filled_order ''BTCUSDT'' ''SHORT'' ''1.0'',
      PDict [(''symbol'', PStr ''ETHUSDT''), (''positionSide'', PStr ''LONG'')]]"
  have h1: "list_all unwindable os"
    by (simp add: os_def unwindable_def unwind_params_def filled_order_def float_defs)
  have h2: "Suc 0 < length os" by (simp add: os_def)
  have absent: "\<exists>kvs. os ! Suc 0 = PDict kvs \<and> map_of kvs ''origQty'' = None"
    by (simp add: os_def)
  from unwind_order_closes_hedge [OF h1 h2, of "sample_platform []" sample_bot fresh_world]
  obtain out w' reqs symbol pside qty q where
    run: "unwind_positions (sample_platform []) sample_bot os fresh_world = (Inr out, w')"
    and snt: "sent w' = sent fresh_world @ reqs" and len: "length reqs = length os"
    and side: "py_getitem (os ! Suc 0) ''positionSide'' = Inr pside"
    and ty: "order_field (reqs ! Suc 0) ''type'' = Some (PStr ''MARKET'')"
    and ps: "order_field (reqs ! Suc 0) ''positionSide'' = Some pside"
    and sd: "order_field (reqs ! Suc 0) ''side'' =
               Some (PStr (if pside = PStr ''SHORT'' then ''BUY'' else ''SELL''))"
    and zero: "(\<exists>kvs. os ! Suc 0 = PDict kvs \<and> map_of kvs ''origQty'' = None) \<longrightarrow>
              order_field (reqs ! Suc 0) ''quantity'' = Some (PFloat 0)"
    by blast
  from side have p: "pside = PStr ''LONG''" by (simp add: os_def)
  from zero absent have z: "order_field (reqs ! Suc 0) ''quantity'' = Some (PFloat 0)"
    by blast
  from len have l2: "length reqs = 2" by (simp add: os_def)
  from sd p have sd': "order_field (reqs ! Suc 0) ''side'' = Some (PStr ''SELL'')" by simp
  from ps p have ps': "order_field (reqs ! Suc 0) ''positionSide'' = Some (PStr ''LONG'')" by simp
  from h1 run snt l2 ty ps' sd' z show ?thesis unfolding os_def by blast
qed

text \<open>
  The first submission fails and the second succeeds: both are made, and the result is
  \<^verbatim>\<open>None\<close> followed by the exchange's answer.
\<close>

theorem order_loops_tolerate_failed_submissions_witness:
  "(\<exists>out w'.
      hedge_positions
        (sample_platform [None, Some (filled_order ''ETHUSDT'' ''LONG'' ''2.5'')]) sample_bot
        [position_of ''BTCUSDT'' ''LONG'' ''1.0'', position_of ''ETHUSDT'' ''SHORT'' ''-2.5'']
        fresh_world = (Inr out, w') \<and>
      length out = 2 \<and> out ! 0 = PNone \<and> out ! 1 = filled_order ''ETHUSDT'' ''LONG'' ''2.5'' \<and>
      length (sent w') = 2) \<and>
   (\<exists>out w'.
      unwind_positions
        (sample_platform [None, Some (filled_order ''ETHUSDT'' ''LONG'' ''2.5'')]) sample_bot
        [filled_order ''BTCUSDT'' ''SHORT'' ''1.0'', filled_order ''ETHUSDT'' ''LONG'' ''2.5'']
        fresh_world = (Inr out, w') \<and>
      length out = 2 \<and> out ! 0 = PNone \<and> out ! 1 = filled_order ''ETHUSDT'' ''LONG'' ''2.5'' \<and>
      length (sent w') = 2)"
proof -
  define pf where "pf = sample_platform [None, Some (filled_order ''ETHUSDT'' ''LONG'' ''2.5'')]"
  define ps where "ps = [position_of ''BTCUSDT'' ''LONG'' ''1.0'', position_of ''ETHUSDT'' ''SHORT'' ''-2.5'']"
  define os where "os = [filled_order ''BTCUSDT'' ''SHORT'' ''1.0'', filled_order ''ETHUSDT'' ''LONG'' ''2.5'']"
  have h1: "list_all hedgeable ps"
    by (simp add: ps_def hedgeable_def hedge_params_def position_of_def float_defs)
  have h2: "list_all unwindable os"
    by (simp add: os_def unwindable_def unwind_params_def filled_order_def float_defs)
  have ans0: "answer pf (sent fresh_world @ take 0 reqs) r = PNone" for reqs r
    by (simp add: answer_def pf_def sample_platform_def scripted_def fresh_world_def)
  have ans1: "answer pf (sent fresh_world @ take 1 reqs) r = filled_order ''ETHUSDT'' ''LONG'' ''2.5''"
    if "length reqs = 2" for reqs r
    using that by (simp add: answer_def pf_def sample_platform_def scripted_def fresh_world_def)
  from order_loops_tolerate_failed_submissions [OF h1 h2, of pf sample_bot fresh_world fresh_world]
  obtain out reqs out' reqs' where
    run: "hedge_positions pf sample_bot ps fresh_world =
            (Inr out, fresh_world\<lparr>sent := sent fresh_world @ reqs,
                                  ticks := ticks fresh_world + length ps\<rparr>)"
    and lo: "length out = length ps" and lr: "length reqs = length ps"
    and each: "\<forall>i<length ps. out ! i = answer pf (sent fresh_world @ take i reqs) (reqs ! i)"
    and run': "unwind_positions pf sample_bot os fresh_world =
            (Inr out', fresh_world\<lparr>sent := sent fresh_world @ reqs',
                                  ticks := ticks fresh_world + length os\<rparr>)"
    and lo': "length out' = length os" and lr': "length reqs' = length os"
    and each': "\<forall>i<length os. out' ! i = answer pf (sent fresh_world @ take i reqs') (reqs' ! i)"
    by blast
  have l2: "length reqs = 2" "length out = 2" "length reqs' = 2" "length out' = 2"
    using lo lr lo' lr' by (simp_all add: ps_def os_def)
  from each have "out ! 0 = answer pf (sent fresh_world @ take 0 reqs) (reqs ! 0)"
    and "out ! 1 = answer pf (sent fresh_world @ take 1 reqs) (reqs ! 1)"
    by (simp_all add: ps_def)
  then have o: "out ! 0 = PNone" "out ! 1 = filled_order ''ETHUSDT'' ''LONG'' ''2.5''"
    using ans0 ans1 [OF l2(1)] by simp_all
  from each' have "out' ! 0 = answer pf (sent fresh_world @ take 0 reqs') (reqs' ! 0)"
    and "out' ! 1 = answer pf (sent fresh_world @ take 1 reqs') (reqs' ! 1)"
    by (simp_all add: os_def)
  then have o': "out' ! 0 = PNone" "out' ! 1 = filled_order ''ETHUSDT'' ''LONG'' ''2.5''"
    using ans0 ans1 [OF l2(3)] by simp_all
  have s: "length (sent (fresh_world\<lparr>sent := sent fresh_world @ reqs,
                                  ticks := ticks fresh_world + length ps\<rparr>)) = 2"
    "length (sent (fresh_world\<lparr>sent := sent fresh_world @ reqs',
                                  ticks := ticks fresh_world + length os\<rparr>)) = 2"
    using l2 by (simp_all add: fresh_world_def)
  from run l2 o s(1) have A: "\<exists>out w'.
      hedge_positions pf sample_bot ps fresh_world = (Inr out, w') \<and>
      length out = 2 \<and> out ! 0 = PNone \<and> out ! 1 = filled_order ''ETHUSDT'' ''LONG'' ''2.5'' \<and>
      length (sent w') = 2"
    by blast
  from run' l2 o' s(2) have B: "\<exists>out w'.
      unwind_positions pf sample_bot os fresh_world = (Inr out, w') \<and>
      length out = 2 \<and> out ! 0 = PNone \<and> out ! 1 = filled_order ''ETHUSDT'' ''LONG'' ''2.5'' \<and>
      length (sent w') = 2"
    by blast
  from A B show ?thesis unfolding pf_def ps_def os_def by (rule conjI)
qed


text \<open>
  Two positions at rates of exactly 0.0005 and -0.0005, and a failed position request:
  both runs exit with code 0 and submit nothing.
\<close>

theorem no_selection_no_orders_witness:
  "fst (main (sample_platform
               [Some (PList [position_of ''BTCUSDT'' ''LONG'' ''1.0'',
                             position_of ''ETHUSDT'' ''SHORT'' ''-2.5'']),
                Some (funding_of ''BTCUSDT'' ''0.0005''),
                Some (funding_of ''ETHUSDT'' ''-0.0005'')]) fresh_world) = 0 \<and>
   orders_sent (snd (main (sample_platform
               [Some (PList [position_of ''BTCUSDT'' ''LONG'' ''1.0'',
                             position_of ''ETHUSDT'' ''SHORT'' ''-2.5'']),
                Some (funding_of ''BTCUSDT'' ''0.0005''),
                Some (funding_of ''ETHUSDT'' ''-0.0005'')]) fresh_world)) = [] \<and>
   fst (main (sample_platform [None]) fresh_world) = 0 \<and>
   orders_sent (snd (main (sample_platform [None]) fresh_world)) = []"
proof -
  define ps where "ps = [position_of ''BTCUSDT'' ''LONG'' ''1.0'',
                             position_of ''ETHUSDT'' ''SHORT'' ''-2.5'']"
  define pf where "pf = sample_platform
               [Some (PList ps), Some (funding_of ''BTCUSDT'' ''0.0005''),
                Some (funding_of ''ETHUSDT'' ''-0.0005'')]"
  define w1 where "w1 = snd (get_positions pf sample_bot fresh_world)"
  define w2 where "w2 = snd (select_loop pf sample_bot ps [] (tick w1))"
  have h1: "new_bot pf None None None = Inr sample_bot"
    by (simp add: pf_def new_bot_def sample_platform_def sample_bot_def)
  have h2: "get_positions pf sample_bot fresh_world = (Inr (Some ps), w1)"
    unfolding w1_def by (simp add: prod_eq_iff pf_def ps_def run_defs float_defs)
  have "select_loop pf sample_bot ps [] (tick w1) = (Inr [], w2)"
    unfolding w2_def w1_def by (simp add: prod_eq_iff pf_def ps_def run_defs float_defs)
  then have h3: "Some ps = None \<or> Some ps = Some [] \<or>
         (\<exists>qs w2. Some ps = Some qs \<and> select_loop pf sample_bot qs [] (tick w1) = (Inr [], w2))"
    by blast
  have e: "orders_sent fresh_world = []" by (simp add: orders_sent_def fresh_world_def)
  have A: "fst (main pf fresh_world) = 0 \<and> orders_sent (snd (main pf fresh_world)) = []"
    using no_selection_no_orders [OF h1 h2 h3] e by simp
  define pf' where "pf' = sample_platform [None]"
  define v1 where "v1 = snd (get_positions pf' sample_bot fresh_world)"
  have k1: "new_bot pf' None None None = Inr sample_bot"
    by (simp add: pf'_def new_bot_def sample_platform_def sample_bot_def)
  have k2: "get_positions pf' sample_bot fresh_world = (Inr None, v1)"
    unfolding v1_def by (simp add: prod_eq_iff pf'_def run_defs)
  have k3: "None = None \<or> None = Some [] \<or>
         (\<exists>qs w2. None = Some qs \<and> select_loop pf' sample_bot qs [] (tick v1) = (Inr [], w2))"
    by simp
  have B: "fst (main pf' fresh_world) = 0 \<and> orders_sent (snd (main pf' fresh_world)) = []"
    using no_selection_no_orders [OF k1 k2 k3] e by simp
  from A B show ?thesis unfolding pf_def pf'_def ps_def by simp
qed

text \<open>
  One selected position whose hedge submission fails: the hedge step returns a list
  holding \<^verbatim>\<open>None\<close>, no unwind order follows the hedge order, and \<open>main\<close> exits
  with code 1.
\<close>

theorem absent_hedge_entry_aborts_unwind_witness:
  "PNone \<in> set [PNone] \<and>
   fst (hedge_positions
          (sample_platform
             [Some (PList [position_of ''BTCUSDT'' ''LONG'' ''1.0'']),
              Some (funding_of ''BTCUSDT'' ''0.001''), None])
          sample_bot [position_of ''BTCUSDT'' ''LONG'' ''1.0'']
          (snd (select_loop
             (sample_platform
               [Some (PList [position_of ''BTCUSDT'' ''LONG'' ''1.0'']),
                Some (funding_of ''BTCUSDT'' ''0.001''), None])
             sample_bot [position_of ''BTCUSDT'' ''LONG'' ''1.0''] []
             (tick (snd (get_positions
               (sample_platform
                 [Some (PList [position_of ''BTCUSDT'' ''LONG'' ''1.0'']),
                  Some (funding_of ''BTCUSDT'' ''0.001''), None])
               sample_bot fresh_world)))))) = Inr [PNone] \<and>
   fst (main (sample_platform
               [Some (PList [position_of ''BTCUSDT'' ''LONG'' ''1.0'']),
                Some (funding_of ''BTCUSDT'' ''0.001''), None]) fresh_world) = 1 \<and>
   map req_method (sent (snd (main (sample_platform
               [Some (PList [position_of ''BTCUSDT'' ''LONG'' ''1.0'']),
                Some (funding_of ''BTCUSDT'' ''0.001''), None]) fresh_world))) =
     [''GET'', ''GET'', ''POST'']"
proof -
  define ps where "ps = [position_of ''BTCUSDT'' ''LONG'' ''1.0'']"
  define pf where "pf = sample_platform
               [Some (PList ps), Some (funding_of ''BTCUSDT'' ''0.001''), None]"
  define w1 where "w1 = snd (get_positions pf sample_bot fresh_world)"
  define w2 where "w2 = snd (select_loop pf sample_bot ps [] (tick w1))"
  define w3 where "w3 = snd (hedge_positions pf sample_bot ps w2)"
  have h0: "PNone \<in> set [PNone]" by simp
  have h1: "new_bot pf None None None = Inr sample_bot"
    by (simp add: pf_def new_bot_def sample_platform_def sample_bot_def)
  have h2: "get_positions pf sample_bot fresh_world = (Inr (Some ps), w1)"
    unfolding w1_def by (simp add: prod_eq_iff pf_def ps_def run_defs float_defs)
  have h3: "ps \<noteq> []" by (simp add: ps_def)
  have h4: "select_loop pf sample_bot ps [] (tick w1) = (Inr ps, w2)"
    unfolding w2_def w1_def by (simp add: prod_eq_iff pf_def ps_def run_defs float_defs)
  have h5: "hedge_positions pf sample_bot ps w2 = (Inr [PNone], w3)"
    unfolding w3_def w2_def w1_def by (simp add: prod_eq_iff pf_def ps_def run_defs float_defs)
  have m3: "map req_method (sent w3) = [''GET'', ''GET'', ''POST'']"
    unfolding w3_def w2_def w1_def by (simp add: pf_def ps_def run_defs float_defs)
  from absent_hedge_entry_aborts_unwind [OF h0, of pf sample_bot w3]
  obtain e w' reqs where
    snt: "sent w' = sent w3 @ reqs"
    and le: "length reqs \<le> length (takeWhile (\<lambda>order. order \<noteq> PNone) [PNone])"
    and exit: "\<forall>w0 w1 w2 positions adjust.
              new_bot pf None None None = Inr sample_bot \<and>
              get_positions pf sample_bot w0 = (Inr (Some positions), w1) \<and> positions \<noteq> [] \<and>
              select_loop pf sample_bot positions [] (tick w1) = (Inr adjust, w2) \<and> adjust \<noteq> [] \<and>
              hedge_positions pf sample_bot adjust w2 = (Inr [PNone], w3) \<longrightarrow>
              main pf w0 = (1, w')"
    by blast
  from exit h1 h2 h3 h4 h5 have m: "main pf fresh_world = (1, w')" by blast
  from le have "reqs = []" by simp
  with snt m3 have "map req_method (sent w') = [''GET'', ''GET'', ''POST'']" by simp
  with m h0 h5 show ?thesis unfolding pf_def ps_def w2_def w1_def by simp
qed

end
